theory Spec2Isabelle
  imports Complex_Main "HOL-Library.Sublist" "HOL-Library.Product_Lexorder"
begin

section \<open>Data model of \<open>decodense/orbitals.py\<close>\<close>

text \<open>
  A dense two-dimensional array is the list of its columns, a column the list of its
  entries over the atomic-orbital rows: every access of the source is by column
  (\<^verbatim>\<open>mo_coeff[i][:, spin_mo]\<close>, \<^verbatim>\<open>mo[:, orb_idx]\<close>). Entries are exact reals: rounding
  of the machine floats is not modelled.
\<close>

type_synonym matrix = "real list list"

text \<open>
  The Python exceptions a call can end with. The last four are the classes of the
  specification's taxonomy; the source defines none of them and no path of the model
  produces one.
\<close>

datatype error =
    IndexError | KeyError | ValueError | NameError | UnboundLocalError
  | LocalizationFailure | MissingParameterError | InvalidOptionError | DimensionMismatchError

text \<open>
  The attributes of \<^verbatim>\<open>mol\<close> that the module reads: the occupied-orbital index arrays
  \<^verbatim>\<open>mol.alpha\<close> and \<^verbatim>\<open>mol.beta\<close>, \<^verbatim>\<open>mol.spin\<close>, \<^verbatim>\<open>mol.natm\<close>, and of
  \<^verbatim>\<open>mol.ao_labels(fmt=None)\<close> the first component of every label, the atom of the
  atomic orbital (the only component \<^verbatim>\<open>_population\<close> reads).
\<close>

record mole =
  alpha :: "nat list"
  beta :: "nat list"
  spin :: int
  natm :: nat
  ao_labels :: "nat list"

text \<open>
  The procedures of the external library (pyscf's \<^verbatim>\<open>lo\<close> and \<^verbatim>\<open>lib\<close>), taken as
  parameters. An iterative optimizer returns the orbitals it stopped at together with
  its convergence flag (\<^verbatim>\<open>loc.converged\<close> in pyscf); its arguments are the molecule,
  the occupied columns and the tolerance, and for \<^verbatim>\<open>ibo\<close> also the orthogonalized
  IAOs and the exponent.
\<close>

record pyscf =
  Boys_kernel :: "mole \<Rightarrow> matrix \<Rightarrow> real \<Rightarrow> matrix \<times> bool"
  PM_kernel :: "mole \<Rightarrow> matrix \<Rightarrow> real \<Rightarrow> matrix \<times> bool"
  iao :: "mole \<Rightarrow> matrix \<Rightarrow> matrix"
  vec_lowdin :: "matrix \<Rightarrow> matrix \<Rightarrow> matrix"
  ibo :: "mole \<Rightarrow> matrix \<Rightarrow> matrix \<Rightarrow> real \<Rightarrow> nat \<Rightarrow> matrix \<times> bool"
  reference_mol :: "mole \<Rightarrow> mole"
  num_threads :: nat

definition LOC_CONV :: real where
  "LOC_CONV = 1 / 10 ^ 10"

subsection \<open>Array and string primitives\<close>

text \<open>\<^verbatim>\<open>m[:, idx]\<close>: the columns of \<open>m\<close> at the indices \<open>idx\<close>, in that order; an index past
  the last column raises.\<close>

definition take_cols :: "matrix \<Rightarrow> nat list \<Rightarrow> error + matrix" where
  "take_cols m idx =
     (if list_all (\<lambda>j. j < length m) idx then Inr (map (\<lambda>j. m ! j) idx) else Inl IndexError)"

text \<open>\<^verbatim>\<open>m[:, idx] = new\<close>: column \<open>idx ! k\<close> of \<open>m\<close> becomes column \<open>k\<close> of \<open>new\<close>, written in the
  order of \<open>idx\<close>. The value must have one column per index, each as long as the columns of
  \<open>m\<close> (numpy's broadcasting of a single column or row is left out: the localizers return
  one column per column they are given).\<close>

definition put_cols :: "matrix \<Rightarrow> nat list \<Rightarrow> matrix \<Rightarrow> error + matrix" where
  "put_cols m idx new =
     (if \<not> list_all (\<lambda>j. j < length m) idx then Inl IndexError
      else if length new \<noteq> length idx \<or> \<not> list_all (\<lambda>c. list_all (\<lambda>d. length c = length d) m) new
        then Inl ValueError
      else Inr (fold (\<lambda>(j, c) a. a[j := c]) (zip idx new) m))"

text \<open>\<^verbatim>\<open>sub in s\<close> on strings.\<close>

fun contains :: "string \<Rightarrow> string \<Rightarrow> bool" where
  "contains sub [] = (sub = [])"
| "contains sub (c # cs) = (prefix sub (c # cs) \<or> contains sub cs)"

text \<open>\<^verbatim>\<open>int(c)\<close> on a one-character string: a decimal digit, or \<^verbatim>\<open>ValueError\<close>.\<close>

definition int_of_char :: "char \<Rightarrow> error + nat" where
  "int_of_char c =
     (let n = of_char c :: nat in
      if 48 \<le> n \<and> n \<le> 57 then Inr (n - 48) else Inl ValueError)"

section \<open>\<open>loc_orbs\<close>\<close>

text \<open>
  One pass of the loop body's \<^verbatim>\<open>if/elif\<close> chain (lines 31 to 49) on the coefficient
  matrix \<open>m\<close> of one spin channel: the outcome, the matrix as the pass leaves it (it is
  mutated in place, so it is there after a raise as well), and the number of runs of an
  iterative optimizer.
\<close>

definition localize :: "pyscf \<Rightarrow> mole \<Rightarrow> matrix \<Rightarrow> string \<Rightarrow> matrix \<Rightarrow> nat list
    \<Rightarrow> error option \<times> matrix \<times> nat" where
  "localize lo mol s variant m spin_mo =
     (if variant = ''fb'' then
        (case take_cols m spin_mo of
           Inl e \<Rightarrow> (Some e, m, 0)
         | Inr c \<Rightarrow>
            (case put_cols m spin_mo (fst (Boys_kernel lo mol c LOC_CONV)) of
               Inl e \<Rightarrow> (Some e, m, 1)
             | Inr m' \<Rightarrow> (None, m', 1)))
      else if variant = ''pm'' then
        (case take_cols m spin_mo of
           Inl e \<Rightarrow> (Some e, m, 0)
         | Inr c \<Rightarrow>
            (case put_cols m spin_mo (fst (PM_kernel lo mol c LOC_CONV)) of
               Inl e \<Rightarrow> (Some e, m, 1)
             | Inr m' \<Rightarrow> (None, m', 1)))
      else if contains ''ibo'' variant then
        (case take_cols m spin_mo of
           Inl e \<Rightarrow> (Some e, m, 0)
         | Inr c \<Rightarrow>
            (let iaos = vec_lowdin lo (iao lo mol c) s in
             case int_of_char (last variant) of
               Inl e \<Rightarrow> (Some e, m, 0)
             | Inr p \<Rightarrow>
                (case put_cols m spin_mo (fst (ibo lo mol c iaos LOC_CONV p)) of
                   Inl e \<Rightarrow> (Some e, m, 1)
                 | Inr m' \<Rightarrow> (None, m', 1))))
      else (None, m, 0))"

text \<open>
  The state of a call: the two coefficient matrices and the count of optimizer runs.
  \<open>loc_orbs\<close> returns the outcome (\<open>None\<close> for a normal return, whose value is the pair of
  matrices) and the state the call leaves.
\<close>

record loc_state =
  mo_a :: matrix
  mo_b :: matrix
  runs :: nat

definition closed_shell :: "string \<Rightarrow> mole \<Rightarrow> bool" where
  "closed_shell ref mol \<longleftrightarrow> ref = ''restricted'' \<and> spin mol = 0"

definition loc_orbs :: "pyscf \<Rightarrow> mole \<Rightarrow> matrix \<times> matrix \<Rightarrow> matrix \<Rightarrow> string \<Rightarrow> string
    \<Rightarrow> error option \<times> loc_state" where
  "loc_orbs lo mol mo_coeff s ref variant =
     (case localize lo mol s variant (fst mo_coeff) (alpha mol) of
        (Some e, a, n) \<Rightarrow> (Some e, \<lparr>mo_a = a, mo_b = snd mo_coeff, runs = n\<rparr>)
      | (None, a, n) \<Rightarrow>
         if closed_shell ref mol then
           (case take_cols a (alpha mol) of
              Inl e \<Rightarrow> (Some e, \<lparr>mo_a = a, mo_b = snd mo_coeff, runs = n\<rparr>)
            | Inr c \<Rightarrow>
               (case put_cols (snd mo_coeff) (alpha mol) c of
                  Inl e \<Rightarrow> (Some e, \<lparr>mo_a = a, mo_b = snd mo_coeff, runs = n\<rparr>)
                | Inr b \<Rightarrow> (None, \<lparr>mo_a = a, mo_b = b, runs = n\<rparr>)))
         else
           (case localize lo mol s variant (snd mo_coeff) (beta mol) of
              (Some e, b, k) \<Rightarrow> (Some e, \<lparr>mo_a = a, mo_b = b, runs = n + k\<rparr>)
            | (None, b, k) \<Rightarrow> (None, \<lparr>mo_a = a, mo_b = b, runs = n + k\<rparr>)))"

definition known_variant :: "string \<Rightarrow> bool" where
  "known_variant variant \<longleftrightarrow> variant = ''fb'' \<or> variant = ''pm'' \<or> contains ''ibo'' variant"

section \<open>\<open>assign_rdm1s\<close> and \<open>_population\<close>\<close>

subsection \<open>The helpers of \<open>tools.py\<close> and of numpy\<close>

text \<open>The row count of an array, read off its first column (an array with no column has
  no row in this representation).\<close>

definition nrows :: "matrix \<Rightarrow> nat" where
  "nrows m = (case m of [] \<Rightarrow> 0 | c # _ \<Rightarrow> length c)"

text \<open>Modelled from the spec: \<^verbatim>\<open>make_rdm1\<close> of \<^verbatim>\<open>tools.py\<close>, which is not among the sources.
  It is "that orbital's one-orbital density contribution: outer product of the column with
  itself scaled by occupation", entry \<open>(i, j)\<close> being \<open>occup * orb[i] * orb[j]\<close>.\<close>

definition make_rdm1 :: "real list \<Rightarrow> real \<Rightarrow> matrix" where
  "make_rdm1 orb occup = map (\<lambda>cj. map (\<lambda>ci. occup * ci * cj) orb) orb"

text \<open>Modelled from the spec: \<^verbatim>\<open>contract\<close> of \<^verbatim>\<open>tools.py\<close>, not among the sources, at the
  subscripts \<^verbatim>\<open>'ij,ji->i'\<close>: "\<^verbatim>\<open>pop[k] = sum_l rdm1[k,l] * ovlp[l,k]\<close>". Entry \<open>(k, l)\<close> of an
  array is entry \<open>k\<close> of its column \<open>l\<close>. Operands whose shapes do not fit raise
  \<^verbatim>\<open>ValueError\<close>, as the Einstein summation of numpy does.\<close>

definition contract_ij_ji :: "matrix \<Rightarrow> matrix \<Rightarrow> error + real list" where
  "contract_ij_ji a b =
     (if nrows a = length b \<and> length a = nrows b
      then Inr (map (\<lambda>k. \<Sum>l\<leftarrow>[0..<length a]. a ! l ! k * b ! k ! l) [0..<nrows a])
      else Inl ValueError)"

text \<open>Modelled from the spec: \<^verbatim>\<open>contract\<close> at the subscripts \<^verbatim>\<open>'ki,kl,lj->ij'\<close>, the
  projection of the occupied coefficients \<open>c\<close> onto the orthogonalized IAOs \<open>a\<close> through
  the overlap \<open>s\<close>. A coefficient block with no column gives a product with no column.\<close>

definition contract_ki_kl_lj :: "matrix \<Rightarrow> matrix \<Rightarrow> matrix \<Rightarrow> error + matrix" where
  "contract_ki_kl_lj a s c =
     (if c = [] then Inr []
      else if nrows a = nrows s \<and> length s = nrows c
      then Inr (map (\<lambda>j. map (\<lambda>i. \<Sum>k\<leftarrow>[0..<nrows a]. \<Sum>l\<leftarrow>[0..<length s].
                                     a ! i ! k * s ! l ! k * c ! j ! l)
                            [0..<length a])
                [0..<length c])
      else Inl ValueError)"

text \<open>\<^verbatim>\<open>np.eye(n)\<close>.\<close>

definition eye :: "nat \<Rightarrow> matrix" where
  "eye n = map (\<lambda>j. map (\<lambda>i. if i = j then 1 else 0) [0..<n]) [0..<n]"

text \<open>\<^verbatim>\<open>v[idx]\<close> on a vector.\<close>

definition take_elems :: "real list \<Rightarrow> nat list \<Rightarrow> error + real list" where
  "take_elems v idx =
     (if list_all (\<lambda>j. j < length v) idx then Inr (map (\<lambda>j. v ! j) idx) else Inl IndexError)"

text \<open>\<^verbatim>\<open>list(map(f, xs))\<close> for an \<open>f\<close> that can raise: the first raise ends the map.\<close>

fun map_raising :: "('a \<Rightarrow> error + 'b) \<Rightarrow> 'a list \<Rightarrow> error + 'b list" where
  "map_raising f [] = Inr []"
| "map_raising f (x # xs) =
     (case f x of
        Inl e \<Rightarrow> Inl e
      | Inr y \<Rightarrow> (case map_raising f xs of Inl e \<Rightarrow> Inl e | Inr ys \<Rightarrow> Inr (y # ys)))"

text \<open>\<^verbatim>\<open>with mp.Pool(processes=n) as pool: pool.map(f, xs)\<close>. The constructor of the pool
  raises \<^verbatim>\<open>ValueError\<close> for fewer than one process; \<^verbatim>\<open>Pool.map\<close> returns the results in the
  order of \<open>xs\<close> and re-raises what a task raised. The scheduling of the workers is not
  modelled.\<close>

definition pool_map :: "nat \<Rightarrow> ('a \<Rightarrow> error + 'b) \<Rightarrow> 'a list \<Rightarrow> error + 'b list" where
  "pool_map processes f xs = (if processes < 1 then Inl ValueError else map_raising f xs)"

text \<open>\<^verbatim>\<open>np.argsort(w)\<close>: the indices of \<open>w\<close> in ascending order of their weights, equal
  weights in the order of their indices (numpy leaves the order of equal weights to the
  sorting algorithm; \<open>centre_rule\<close> below holds for any such order).\<close>

definition argsort :: "real list \<Rightarrow> nat list" where
  "argsort w = sort_key (\<lambda>i. w ! i) [0..<length w]"

text \<open>\<^verbatim>\<open>np.unique(cs, axis=0)\<close>: the distinct rows in lexicographic order; and
  \<^verbatim>\<open>np.where((cs == u).all(axis=1))[0]\<close>: the positions of the rows equal to \<open>u\<close>.\<close>

definition unique_rows :: "(nat \<times> nat) list \<Rightarrow> (nat \<times> nat) list" where
  "unique_rows cs = sort (remdups cs)"

definition where_rows :: "(nat \<times> nat) list \<Rightarrow> nat \<times> nat \<Rightarrow> nat list" where
  "where_rows cs u = filter (\<lambda>j. cs ! j = u) [0..<length cs]"

subsection \<open>\<open>_population\<close> (lines 171 to 184)\<close>

text \<open>The loop over \<^verbatim>\<open>enumerate(ao_labels)\<close>: \<^verbatim>\<open>populations[k[0]] += pop[i]\<close>.\<close>

fun add_pops :: "real list \<Rightarrow> (nat \<times> nat) list \<Rightarrow> real list \<Rightarrow> error + real list" where
  "add_pops pop [] populations = Inr populations"
| "add_pops pop ((i, k) # rest) populations =
     (if k < length populations \<and> i < length pop
      then add_pops pop rest (populations[k := populations ! k + pop ! i])
      else Inl IndexError)"

definition population :: "nat \<Rightarrow> nat list \<Rightarrow> matrix \<Rightarrow> matrix \<Rightarrow> error + real list" where
  "population n_atm labels ovlp rdm1 =
     (case contract_ij_ji rdm1 ovlp of
        Inl e \<Rightarrow> Inl e
      | Inr pop \<Rightarrow> add_pops pop (enumerate 0 labels) (replicate n_atm 0))"

subsection \<open>\<open>get_weights\<close> (lines 88 to 97)\<close>

text \<open>
  The nested kernel, with the variables of the enclosing call it reads as arguments.
  \<open>mo\<close> is \<open>None\<close> while the enclosing call has not bound it, and reading it then raises
  \<^verbatim>\<open>NameError\<close>.
\<close>

definition get_weights :: "nat \<Rightarrow> nat list \<Rightarrow> matrix \<Rightarrow> matrix option \<Rightarrow> real list \<Rightarrow> nat
    \<Rightarrow> error + real list" where
  "get_weights n_atm labels ovlp mo mocc orb_idx =
     (case mo of
        None \<Rightarrow> Inl NameError
      | Some mo' \<Rightarrow>
         if orb_idx < length mo' \<and> orb_idx < length mocc
         then (let orb = mo' ! orb_idx;
                   rdm1_orb = make_rdm1 orb (mocc ! orb_idx)
               in population n_atm labels ovlp rdm1_orb)
         else Inl IndexError)"

subsection \<open>The loop over the spin channels (lines 103 to 127)\<close>

text \<open>Lines 106 to 111: the coefficients \<open>mo\<close> of the channel; no branch binds \<open>mo\<close> for a
  population scheme that is neither \<^verbatim>\<open>'mulliken'\<close> nor \<^verbatim>\<open>'iao'\<close>.\<close>

definition channel_mo :: "pyscf \<Rightarrow> mole \<Rightarrow> matrix \<Rightarrow> string \<Rightarrow> matrix \<Rightarrow> nat list
    \<Rightarrow> error + matrix option" where
  "channel_mo lo mol s pop m spin_mo =
     (if pop = ''mulliken'' then
        (case take_cols m spin_mo of Inl e \<Rightarrow> Inl e | Inr c \<Rightarrow> Inr (Some c))
      else if pop = ''iao'' then
        (case take_cols m spin_mo of
           Inl e \<Rightarrow> Inl e
         | Inr c \<Rightarrow>
            (case contract_ki_kl_lj (vec_lowdin lo (iao lo mol c) s) s c of
               Inl e \<Rightarrow> Inl e
             | Inr mo \<Rightarrow> Inr (Some mo)))
      else Inr None)"

text \<open>Lines 71 to 86: the molecule whose atoms and labels are used, and the overlap;
  \<^verbatim>\<open>pmol.nao_nr()\<close> is the number of its labels.\<close>

definition pmol :: "pyscf \<Rightarrow> mole \<Rightarrow> string \<Rightarrow> mole" where
  "pmol lo mol pop = (if pop = ''iao'' then reference_mol lo mol else mol)"

definition ovlp_of :: "pyscf \<Rightarrow> mole \<Rightarrow> matrix \<Rightarrow> string \<Rightarrow> matrix" where
  "ovlp_of lo mol s pop =
     (if pop = ''mulliken'' then s else eye (length (ao_labels (pmol lo mol pop))))"

text \<open>Lines 105 to 122: the weights of one channel, one vector per position of \<open>spin_mo\<close>.\<close>

definition spin_weights :: "pyscf \<Rightarrow> mole \<Rightarrow> matrix \<Rightarrow> string \<Rightarrow> bool \<Rightarrow> matrix \<Rightarrow> real list
    \<Rightarrow> nat list \<Rightarrow> error + real list list" where
  "spin_weights lo mol s pop multiproc m occ spin_mo =
     (case channel_mo lo mol s pop m spin_mo of
        Inl e \<Rightarrow> Inl e
      | Inr mo \<Rightarrow>
         (case take_elems occ spin_mo of
            Inl e \<Rightarrow> Inl e
          | Inr mocc \<Rightarrow>
             (let domain = [0..<length spin_mo];
                  kernel = get_weights (natm (pmol lo mol pop)) (ao_labels (pmol lo mol pop))
                             (ovlp_of lo mol s pop) mo mocc
              in if multiproc
                 then pool_map (min (length domain) (num_threads lo)) kernel domain
                 else map_raising kernel domain)))"

text \<open>
  The arrays of zeros that line 100 stores in \<^verbatim>\<open>weights\<close> are both replaced before the loop
  ends, so they are left out.
  What the loop leaves: the two weight lists, the size of the last \<^verbatim>\<open>domain\<close> (the
  variable stays bound after the loop and lines 135 and 147 read it), and the calls of
  \<open>get_weights\<close> made, as pairs of channel and position.
\<close>

record pop_state =
  weights :: "real list list \<times> real list list"
  domain :: nat
  evaluated :: "(nat \<times> nat) list"

definition spin_loop :: "pyscf \<Rightarrow> mole \<Rightarrow> matrix \<Rightarrow> matrix \<times> matrix \<Rightarrow> real list \<times> real list
    \<Rightarrow> string \<Rightarrow> string \<Rightarrow> bool \<Rightarrow> error + pop_state" where
  "spin_loop lo mol s mo_coeff mo_occ ref pop multiproc =
     (case spin_weights lo mol s pop multiproc (fst mo_coeff) (fst mo_occ) (alpha mol) of
        Inl e \<Rightarrow> Inl e
      | Inr wa \<Rightarrow>
         if closed_shell ref mol then
           Inr \<lparr>weights = (wa, wa), domain = length (alpha mol),
                evaluated = map (Pair 0) [0..<length (alpha mol)]\<rparr>
         else
           (case spin_weights lo mol s pop multiproc (snd mo_coeff) (snd mo_occ) (beta mol) of
              Inl e \<Rightarrow> Inl e
            | Inr wb \<Rightarrow>
               Inr \<lparr>weights = (wa, wb), domain = length (beta mol),
                    evaluated = map (Pair 0) [0..<length (alpha mol)]
                                @ map (Pair 1) [0..<length (beta mol)]\<rparr>))"

subsection \<open>The verbose print (lines 130 to 137)\<close>

text \<open>The printed text is not part of the model; the reads \<^verbatim>\<open>spin_mo[j]\<close> and
  \<^verbatim>\<open>weights[i][j]\<close> for \<open>j\<close> in the last \<^verbatim>\<open>domain\<close> are, since they can raise.\<close>

definition verbose_print :: "mole \<Rightarrow> real list list \<times> real list list \<Rightarrow> nat \<Rightarrow> error + unit" where
  "verbose_print mol w n_dom =
     (if n_dom \<le> length (alpha mol) \<and> n_dom \<le> length (fst w)
         \<and> n_dom \<le> length (beta mol) \<and> n_dom \<le> length (snd w)
      then Inr () else Inl IndexError)"

subsection \<open>The bond-wise partitioning (lines 140 to 163)\<close>

text \<open>Lines 149 to 156, for one weight vector.\<close>

definition centre :: "real \<Rightarrow> real list \<Rightarrow> error + nat \<times> nat" where
  "centre thres w =
     (let max_idx = rev (argsort w) in
      if max_idx = [] then Inl IndexError
      else if \<bar>w ! (max_idx ! 0)\<bar> > thres then Inr (max_idx ! 0, max_idx ! 0)
      else if length max_idx < 2 then Inl IndexError
      else Inr (min (max_idx ! 0) (max_idx ! 1), max (max_idx ! 0) (max_idx ! 1)))"

text \<open>Lines 147 to 156: the loop over \<^verbatim>\<open>domain\<close> for one channel, on the rows \<open>cs\<close> of
  \<^verbatim>\<open>centres[i]\<close>.\<close>

fun centres_loop :: "real \<Rightarrow> real list list \<Rightarrow> nat list \<Rightarrow> (nat \<times> nat) list
    \<Rightarrow> error + (nat \<times> nat) list" where
  "centres_loop thres w [] cs = Inr cs"
| "centres_loop thres w (j # js) cs =
     (if j < length w then
        (case centre thres (w ! j) of
           Inl e \<Rightarrow> Inl e
         | Inr c \<Rightarrow>
            if j < length cs then centres_loop thres w js (cs[j := c]) else Inl IndexError)
      else Inl IndexError)"

text \<open>Lines 142 to 160: \<^verbatim>\<open>kwargs['thres']\<close> raises \<^verbatim>\<open>KeyError\<close> when the keyword was not
  given; the rows start as zeros.\<close>

definition bond_centres :: "mole \<Rightarrow> string \<Rightarrow> real list list \<times> real list list \<Rightarrow> nat \<Rightarrow> real option
    \<Rightarrow> error + (nat \<times> nat) list \<times> (nat \<times> nat) list" where
  "bond_centres mol ref w n_dom kw_thres =
     (case kw_thres of
        None \<Rightarrow> Inl KeyError
      | Some thres \<Rightarrow>
         (case centres_loop thres (fst w) [0..<n_dom] (replicate (length (alpha mol)) (0, 0)) of
            Inl e \<Rightarrow> Inl e
          | Inr ca \<Rightarrow>
             if closed_shell ref mol then Inr (ca, ca)
             else
               (case centres_loop thres (snd w) [0..<n_dom]
                       (replicate (length (beta mol)) (0, 0)) of
                  Inl e \<Rightarrow> Inl e
                | Inr cb \<Rightarrow> Inr (ca, cb))))"

text \<open>Lines 162 and 163.\<close>

definition rep_idx :: "(nat \<times> nat) list \<Rightarrow> nat list list" where
  "rep_idx cs = map (where_rows cs) (unique_rows cs)"

subsection \<open>\<open>assign_rdm1s\<close> (lines 58 to 168)\<close>

text \<open>The two shapes of the returned pair: the weights and \<^verbatim>\<open>None\<close>, or the groups of
  positions and the unique centre pairs, each per spin channel.\<close>

datatype result =
    Weights "real list list \<times> real list list"
  | Groups "nat list list \<times> nat list list" "(nat \<times> nat) list \<times> (nat \<times> nat) list"

text \<open>\<open>kw_thres\<close> is the entry \<^verbatim>\<open>'thres'\<close> of \<^verbatim>\<open>kwargs\<close>, \<open>None\<close> when the call has none. The
  names \<^verbatim>\<open>rep_idx\<close> and \<^verbatim>\<open>centres_unique\<close> are bound under \<^verbatim>\<open>'bonds'\<close> only, and line 168
  reads them for every policy but \<^verbatim>\<open>'atoms'\<close> and \<^verbatim>\<open>'eda'\<close>.\<close>

definition assign_rdm1s :: "pyscf \<Rightarrow> mole \<Rightarrow> matrix \<Rightarrow> matrix \<times> matrix \<Rightarrow> real list \<times> real list
    \<Rightarrow> string \<Rightarrow> string \<Rightarrow> string \<Rightarrow> bool \<Rightarrow> int \<Rightarrow> real option \<Rightarrow> error + result" where
  "assign_rdm1s lo mol s mo_coeff mo_occ ref pop part multiproc verbose kw_thres =
     (case spin_loop lo mol s mo_coeff mo_occ ref pop multiproc of
        Inl e \<Rightarrow> Inl e
      | Inr st \<Rightarrow>
         (case (if 0 < verbose then verbose_print mol (weights st) (domain st) else Inr ()) of
            Inl e \<Rightarrow> Inl e
          | Inr _ \<Rightarrow>
             (case (if part = ''bonds''
                    then (case bond_centres mol ref (weights st) (domain st) kw_thres of
                            Inl e \<Rightarrow> Inl e
                          | Inr cs \<Rightarrow> Inr (Some cs))
                    else Inr None) of
                Inl e \<Rightarrow> Inl e
              | Inr bound \<Rightarrow>
                 if part = ''atoms'' \<or> part = ''eda'' then Inr (Weights (weights st))
                 else
                   (case bound of
                      None \<Rightarrow> Inl UnboundLocalError
                    | Some (ca, cb) \<Rightarrow>
                       Inr (Groups (rep_idx ca, rep_idx cb) (unique_rows ca, unique_rows cb))))))"

subsection \<open>The exceptions of Python\<close>

text \<open>The built-in exceptions among the values of \<open>error\<close>, as opposed to the classes of the
  specification's taxonomy.\<close>

definition builtin :: "error \<Rightarrow> bool" where
  "builtin e \<longleftrightarrow>
     e = IndexError \<or> e = KeyError \<or> e = ValueError \<or> e = NameError \<or> e = UnboundLocalError"

subsection \<open>Grouping by centre\<close>

text \<open>What the deduplication is to achieve, in the words of the specification: the groups
  \<open>gs\<close> partition the positions of the centre rows \<open>cs\<close>, the pairs \<open>us\<close> are the distinct
  rows, and group \<open>k\<close> holds the positions whose row is \<open>us ! k\<close>.\<close>

definition partition_by_centre :: "(nat \<times> nat) list \<Rightarrow> nat list list \<Rightarrow> (nat \<times> nat) list \<Rightarrow> bool" where
  "partition_by_centre cs gs us \<longleftrightarrow>
     distinct us \<and> set us = set cs \<and> length gs = length us
     \<and> distinct (concat gs) \<and> set (concat gs) = {0..<length cs}
     \<and> (\<forall>k \<in> {0..<length us}. set (gs ! k) = set (filter (\<lambda>j. cs ! j = us ! k) [0..<length cs]))"

subsection \<open>Normalized orbitals\<close>

text \<open>The quadratic form \<open>c\<^sup>T S c\<close> of a coefficient column \<open>c\<close> in the overlap \<open>s\<close>, entry
  \<open>(k, l)\<close> of \<open>s\<close> being entry \<open>k\<close> of its column \<open>l\<close>; and an \<open>n\<close> by \<open>n\<close> array.\<close>

definition quad_form :: "real list \<Rightarrow> matrix \<Rightarrow> real" where
  "quad_form c s = (\<Sum>k\<leftarrow>[0..<length c]. \<Sum>l\<leftarrow>[0..<length c]. c ! k * s ! l ! k * c ! l)"

definition square :: "matrix \<Rightarrow> nat \<Rightarrow> bool" where
  "square s n \<longleftrightarrow> length s = n \<and> list_all (\<lambda>c. length c = n) s"

section \<open>Example inputs\<close>

text \<open>
  Concrete inputs on which the theorems are exercised: molecules of two atoms, unit
  coefficient and overlap matrices over two or three atomic orbitals, and localizers that
  reverse the order of the columns they are given (a rotation among the occupied
  orbitals). The first and the last report that they did not converge.
\<close>

definition example_lo :: pyscf where
  "example_lo =
     \<lparr>Boys_kernel = (\<lambda>mol c tol. (rev c, False)),
      PM_kernel = (\<lambda>mol c tol. (rev c, True)),
      iao = (\<lambda>mol c. c),
      vec_lowdin = (\<lambda>a s. a),
      ibo = (\<lambda>mol c iaos tol p. (rev c, False)),
      reference_mol = (\<lambda>mol. mol),
      num_threads = 4\<rparr>"

definition example_mol :: "nat list \<Rightarrow> nat list \<Rightarrow> nat list \<Rightarrow> mole" where
  "example_mol a b labels =
     \<lparr>alpha = a, beta = b, spin = int (length a) - int (length b), natm = 2, ao_labels = labels\<rparr>"

definition unit2 :: matrix where
  "unit2 = [[1, 0], [0, 1]]"

definition unit3 :: matrix where
  "unit3 = [[1, 0, 0], [0, 1, 0], [0, 0, 1]]"

section \<open>Properties of \<open>loc_orbs\<close>\<close>

text \<open>The substring test is the sublist relation of the library.\<close>

lemma contains_sublist: "contains sub str \<longleftrightarrow> sublist sub str"
  by (induction str) (auto simp: sublist_Cons_right)

lemma localize_unknown:
  "\<not> known_variant variant \<Longrightarrow> localize lo mol s variant m spin_mo = (None, m, 0)"
  by (simp add: localize_def known_variant_def)

lemma put_cols_length:
  "put_cols m idx new = Inr m' \<Longrightarrow> length m' = length m"
proof -
  have "length (fold (\<lambda>(j, c) a. a[j := c]) ps a) = length a" for ps :: "(nat \<times> real list) list" and a
    by (induction ps arbitrary: a) (auto split: prod.splits)
  then show "put_cols m idx new = Inr m' \<Longrightarrow> length m' = length m"
    by (auto simp: put_cols_def split: if_splits)
qed

lemma fold_update_outside:
  "j \<notin> fst ` set ps \<Longrightarrow> fold (\<lambda>(j, c) a. a[j := c]) ps a ! j = a ! j"
  by (induction ps arbitrary: a) (auto split: prod.splits)

lemma put_cols_outside:
  assumes "put_cols m idx new = Inr m'" and "j \<notin> set idx"
  shows "m' ! j = m ! j"
proof -
  have "j \<notin> fst ` set (zip idx new)"
    using assms(2) by (auto dest: set_zip_leftD)
  then show ?thesis
    using assms(1) by (auto simp: put_cols_def fold_update_outside split: if_splits)
qed

lemma fold_update_copy:
  "\<forall>j \<in> set idx. j < length a \<Longrightarrow> j \<in> set idx \<Longrightarrow>
     fold (\<lambda>(j, c) a. a[j := c]) (zip idx (map f idx)) a ! j = f j"
proof (induction idx arbitrary: a)
  case Nil
  then show ?case by simp
next
  case (Cons i idx)
  show ?case
  proof (cases "j \<in> set idx")
    case True
    then show ?thesis using Cons.IH [of "a[i := f i]"] Cons.prems by simp
  next
    case False
    then have ji: "j = i" using Cons.prems by simp
    have "j \<notin> fst ` set (zip idx (map f idx))"
      using False by (auto dest: set_zip_leftD)
    then show ?thesis
      using Cons.prems by (simp add: fold_update_outside ji)
  qed
qed

lemma localize_frame:
  assumes "localize lo mol s variant m spin_mo = (out, m', n)"
  shows "length m' = length m \<and> (\<forall>j. j \<notin> set spin_mo \<longrightarrow> m' ! j = m ! j)"
  using assms
  by (auto simp: localize_def Let_def put_cols_length put_cols_outside
      split: if_splits sum.splits)

lemma localize_runs:
  assumes "localize lo mol s variant m spin_mo = (None, m', n)"
  shows "n = (if known_variant variant then 1 else 0)"
  using assms
  by (auto simp: localize_def Let_def known_variant_def split: if_splits sum.splits)

text \<open>
  Claim C10. A variant that is not \<^verbatim>\<open>'fb'\<close>, not \<^verbatim>\<open>'pm'\<close> and has no substring
  \<^verbatim>\<open>'ibo'\<close>, with a reference that is not the closed-shell one (unrestricted, or a
  nonzero spin): \<open>loc_orbs\<close> raises nothing, runs no optimizer and returns both
  coefficient matrices as they were given.
\<close>

theorem loc_orbs_unknown_variant_unchanged:
  assumes "variant \<noteq> ''fb''" and "variant \<noteq> ''pm''" and "\<not> contains ''ibo'' variant"
    and "ref \<noteq> ''restricted'' \<or> spin mol \<noteq> 0"
  shows "loc_orbs lo mol mo_coeff s ref variant =
           (None, \<lparr>mo_a = fst mo_coeff, mo_b = snd mo_coeff, runs = 0\<rparr>)"
proof -
  have u: "\<not> known_variant variant"
    using assms(1-3) by (simp add: known_variant_def)
  have c: "\<not> closed_shell ref mol"
    using assms(4) by (auto simp: closed_shell_def)
  show ?thesis
    by (simp add: loc_orbs_def localize_unknown [OF u] c)
qed

theorem loc_orbs_unknown_variant_unchanged_witness:
  "''xyz'' \<noteq> ''fb'' \<and> ''xyz'' \<noteq> ''pm'' \<and> \<not> contains ''ibo'' ''xyz''
   \<and> spin (example_mol [0, 1] [0] [0, 1]) \<noteq> 0
   \<and> loc_orbs example_lo (example_mol [0, 1] [0] [0, 1]) (unit2, unit2) unit2 ''restricted'' ''xyz'' =
       (None, \<lparr>mo_a = unit2, mo_b = unit2, runs = 0\<rparr>)"
proof -
  have h: "''restricted'' \<noteq> ''restricted'' \<or> spin (example_mol [0, 1] [0] [0, 1]) \<noteq> 0"
    by (simp add: example_mol_def)
  have v: "''xyz'' \<noteq> ''fb''" "''xyz'' \<noteq> ''pm''" "\<not> contains ''ibo'' ''xyz''"
    by simp_all
  show ?thesis
    using loc_orbs_unknown_variant_unchanged [OF v h, of example_lo "(unit2, unit2)" unit2] v
    by (simp add: example_mol_def)
qed

text \<open>
  Claim C9. Whatever the outcome, \<open>loc_orbs\<close> leaves both matrices with the columns they
  had, except those it indexes by an occupied index set: \<^verbatim>\<open>mol.alpha\<close> in the alpha
  matrix; in the beta matrix \<^verbatim>\<open>mol.beta\<close>, or \<^verbatim>\<open>mol.alpha\<close> when the closed-shell copy is
  taken (line 52 indexes the beta matrix by the alpha set). Where the alpha set of a
  closed-shell molecule lies in its beta set, every column outside the beta set is unchanged.
  The state of the model has nothing but the two matrices and the run count.
\<close>

theorem loc_orbs_frame:
  "length (mo_a (snd (loc_orbs lo mol mo_coeff s ref variant))) = length (fst mo_coeff)
   \<and> length (mo_b (snd (loc_orbs lo mol mo_coeff s ref variant))) = length (snd mo_coeff)
   \<and> (\<forall>j. j \<notin> set (alpha mol) \<longrightarrow>
         mo_a (snd (loc_orbs lo mol mo_coeff s ref variant)) ! j = fst mo_coeff ! j)
   \<and> (\<forall>j. j \<notin> set (if closed_shell ref mol then alpha mol else beta mol) \<longrightarrow>
         mo_b (snd (loc_orbs lo mol mo_coeff s ref variant)) ! j = snd mo_coeff ! j)
   \<and> ((closed_shell ref mol \<longrightarrow> set (alpha mol) \<subseteq> set (beta mol)) \<longrightarrow>
        (\<forall>j. j \<notin> set (beta mol) \<longrightarrow>
           mo_b (snd (loc_orbs lo mol mo_coeff s ref variant)) ! j = snd mo_coeff ! j))"
proof -
  obtain oa a n where la: "localize lo mol s variant (fst mo_coeff) (alpha mol) = (oa, a, n)"
    by (metis prod_cases3)
  obtain ob b k where lb: "localize lo mol s variant (snd mo_coeff) (beta mol) = (ob, b, k)"
    by (metis prod_cases3)
  note fa = localize_frame [OF la] and fb = localize_frame [OF lb]
  let ?st = "snd (loc_orbs lo mol mo_coeff s ref variant)"
  have a: "mo_a ?st = a"
    using la lb by (auto simp: loc_orbs_def split: option.splits sum.splits)
  have b: "closed_shell ref mol \<Longrightarrow> length (mo_b ?st) = length (snd mo_coeff)
      \<and> (\<forall>j. j \<notin> set (alpha mol) \<longrightarrow> mo_b ?st ! j = snd mo_coeff ! j)"
    using la by (auto simp: loc_orbs_def put_cols_length put_cols_outside
        split: option.splits sum.splits)
  have b': "\<not> closed_shell ref mol \<Longrightarrow> mo_b ?st = snd mo_coeff \<or> mo_b ?st = b"
    using la lb by (auto simp: loc_orbs_def split: option.splits sum.splits)
  show ?thesis
  proof (cases "closed_shell ref mol")
    case True
    with a b fa show ?thesis by auto
  next
    case False
    with a b' [OF False] fa fb show ?thesis by auto
  qed
qed

theorem loc_orbs_frame_witness:
  "snd (loc_orbs example_lo (example_mol [0, 1] [0] [0, 1, 1]) (unit3, unit3) unit3
         ''unrestricted'' ''fb'') =
     \<lparr>mo_a = [[0, 1, 0], [1, 0, 0], [0, 0, 1]], mo_b = unit3, runs = 2\<rparr>
   \<and> 2 \<notin> set (alpha (example_mol [0, 1] [0] [0, 1, 1]))
   \<and> mo_a (snd (loc_orbs example_lo (example_mol [0, 1] [0] [0, 1, 1]) (unit3, unit3) unit3
         ''unrestricted'' ''fb'')) ! 2 = fst (unit3, unit3) ! 2"
  using loc_orbs_frame [of example_lo "example_mol [0, 1] [0] [0, 1, 1]" "(unit3, unit3)" unit3
      "''unrestricted''" "''fb''"]
  by (simp add: loc_orbs_def localize_def take_cols_def put_cols_def example_lo_def
      example_mol_def unit3_def closed_shell_def)

text \<open>
  Claim C8, as the code has it. \<open>loc_orbs\<close> never ends with \<^verbatim>\<open>LocalizationFailure\<close>, and its
  outcome and state are the same whatever the optimizers report about their convergence:
  it stores the orbitals an optimizer returns and never reads the flag.
\<close>

theorem loc_orbs_ignores_convergence:
  "fst (loc_orbs lo mol mo_coeff s ref variant) \<noteq> Some LocalizationFailure
   \<and> loc_orbs
       (lo\<lparr>Boys_kernel := \<lambda>m c t. (fst (Boys_kernel lo m c t), f m c t),
           PM_kernel := \<lambda>m c t. (fst (PM_kernel lo m c t), g m c t),
           ibo := \<lambda>m c i t p. (fst (ibo lo m c i t p), h m c i t p)\<rparr>)
       mol mo_coeff s ref variant
     = loc_orbs lo mol mo_coeff s ref variant"
proof -
  have e: "fst (localize lo mol s variant m spin_mo) \<noteq> Some LocalizationFailure" for m spin_mo
    by (auto simp: localize_def Let_def take_cols_def put_cols_def int_of_char_def
        split: if_splits sum.splits)
  have "fst (loc_orbs lo mol mo_coeff s ref variant) \<noteq> Some LocalizationFailure"
    using e [of "fst mo_coeff" "alpha mol"] e [of "snd mo_coeff" "beta mol"]
    by (auto simp: loc_orbs_def take_cols_def put_cols_def
        split: prod.splits option.splits sum.splits if_splits)
  moreover have "localize
       (lo\<lparr>Boys_kernel := \<lambda>m c t. (fst (Boys_kernel lo m c t), f m c t),
           PM_kernel := \<lambda>m c t. (fst (PM_kernel lo m c t), g m c t),
           ibo := \<lambda>m c i t p. (fst (ibo lo m c i t p), h m c i t p)\<rparr>) mol s variant m spin_mo
     = localize lo mol s variant m spin_mo" for m spin_mo
    by (simp add: localize_def Let_def cong: sum.case_cong)
  ultimately show ?thesis
    by (simp add: loc_orbs_def cong: prod.case_cong option.case_cong if_cong)
qed

theorem loc_orbs_ignores_convergence_witness:
  "fst (loc_orbs example_lo (example_mol [0, 1] [0, 1] [0, 1, 1]) (unit3, unit3) unit3
         ''restricted'' ''ibo2'') \<noteq> Some LocalizationFailure
   \<and> loc_orbs (example_lo\<lparr>Boys_kernel := \<lambda>m c t. (fst (Boys_kernel example_lo m c t), True),
           PM_kernel := \<lambda>m c t. (fst (PM_kernel example_lo m c t), True),
           ibo := \<lambda>m c i t p. (fst (ibo example_lo m c i t p), True)\<rparr>)
       (example_mol [0, 1] [0, 1] [0, 1, 1]) (unit3, unit3) unit3 ''restricted'' ''ibo2''
     = loc_orbs example_lo (example_mol [0, 1] [0, 1] [0, 1, 1]) (unit3, unit3) unit3
         ''restricted'' ''ibo2''"
  using loc_orbs_ignores_convergence [where lo = example_lo
      and mol = "example_mol [0, 1] [0, 1] [0, 1, 1]" and mo_coeff = "(unit3, unit3)"
      and s = unit3 and ref = "''restricted''" and variant = "''ibo2''"
      and f = "\<lambda>m c t. True" and g = "\<lambda>m c t. True" and h = "\<lambda>m c i t p. True"]
  by simp

text \<open>
  Claim C8, as stated, fails: the Foster-Boys optimizer of the example reports that it did
  not converge, and \<open>loc_orbs\<close> returns normally with the orbitals it stopped at.
\<close>

theorem loc_orbs_nonconverged_counterexample:
  "\<not> snd (Boys_kernel example_lo (example_mol [0, 1] [0] [0, 1, 1]) [[1, 0, 0], [0, 1, 0]] LOC_CONV)
   \<and> take_cols unit3 (alpha (example_mol [0, 1] [0] [0, 1, 1])) = Inr [[1, 0, 0], [0, 1, 0]]
   \<and> loc_orbs example_lo (example_mol [0, 1] [0] [0, 1, 1]) (unit3, unit3) unit3
         ''unrestricted'' ''fb'' =
       (None, \<lparr>mo_a = [[0, 1, 0], [1, 0, 0], [0, 0, 1]], mo_b = unit3, runs = 2\<rparr>)
   \<and> fst (loc_orbs example_lo (example_mol [0, 1] [0] [0, 1, 1]) (unit3, unit3) unit3
         ''unrestricted'' ''fb'') \<noteq> Some LocalizationFailure"
  by (simp add: loc_orbs_def localize_def take_cols_def put_cols_def example_lo_def
      example_mol_def unit3_def closed_shell_def)

section \<open>Properties of \<open>assign_rdm1s\<close>\<close>

lemmas model_defs = assign_rdm1s_def spin_loop_def spin_weights_def channel_mo_def take_cols_def
  take_elems_def pmol_def ovlp_of_def get_weights_def population_def contract_ij_ji_def
  contract_ki_kl_lj_def make_rdm1_def nrows_def eye_def pool_map_def verbose_print_def
  bond_centres_def centre_def argsort_def rep_idx_def unique_rows_def where_rows_def
  closed_shell_def example_lo_def example_mol_def unit2_def enumerate_eq_zip upt_rec
  eval_nat_numeral

subsection \<open>Only built-in exceptions are raised\<close>

lemma map_raising_builtin:
  assumes "\<And>x e. f x = Inl e \<Longrightarrow> builtin e" and "map_raising f xs = Inl e"
  shows "builtin e"
  using assms(2)
  by (induction xs) (auto split: sum.splits dest: assms(1))

lemma add_pops_builtin: "add_pops pop ps p = Inl e \<Longrightarrow> builtin e"
  by (induction pop ps p rule: add_pops.induct) (auto simp: builtin_def split: if_splits)

lemma get_weights_builtin: "get_weights n labels ovlp mo mocc k = Inl e \<Longrightarrow> builtin e"
  by (auto simp: get_weights_def population_def contract_ij_ji_def Let_def builtin_def
      split: option.splits if_splits sum.splits dest: add_pops_builtin)

lemma channel_mo_builtin: "channel_mo lo mol s pop m spin_mo = Inl e \<Longrightarrow> builtin e"
  by (auto simp: channel_mo_def take_cols_def contract_ki_kl_lj_def builtin_def
      split: sum.splits if_splits)

lemma take_elems_builtin: "take_elems v idx = Inl e \<Longrightarrow> builtin e"
  by (auto simp: take_elems_def builtin_def split: if_splits)

lemma pool_map_builtin:
  assumes "\<And>x e. f x = Inl e \<Longrightarrow> builtin e" and "pool_map n f xs = Inl e"
  shows "builtin e"
  using assms(2) map_raising_builtin [of f xs e, OF assms(1)]
  by (auto simp: pool_map_def builtin_def split: if_splits)

lemma spin_weights_builtin:
  assumes "spin_weights lo mol s pop multiproc m occ spin_mo = Inl e"
  shows "builtin e"
proof (cases "channel_mo lo mol s pop m spin_mo")
  case (Inl a)
  then show ?thesis using assms channel_mo_builtin [of lo mol s pop m spin_mo a]
    by (simp add: spin_weights_def)
next
  case mo: (Inr mo)
  show ?thesis
  proof (cases "take_elems occ spin_mo")
    case (Inl a)
    then show ?thesis using assms mo take_elems_builtin [of occ spin_mo a]
      by (simp add: spin_weights_def)
  next
    case (Inr mocc)
    show ?thesis
    proof (cases multiproc)
      case True
      then show ?thesis
        using assms mo Inr
        by (auto simp: spin_weights_def Let_def
            intro: pool_map_builtin [OF get_weights_builtin])
    next
      case False
      then show ?thesis
        using assms mo Inr
        by (auto simp: spin_weights_def Let_def
            intro: map_raising_builtin [OF get_weights_builtin])
    qed
  qed
qed

lemma spin_loop_builtin:
  "spin_loop lo mol s mo_coeff mo_occ ref pop multiproc = Inl e \<Longrightarrow> builtin e"
  by (auto simp: spin_loop_def split: sum.splits if_splits dest: spin_weights_builtin)

lemma centres_loop_builtin: "centres_loop t w js cs = Inl e \<Longrightarrow> builtin e"
  by (induction t w js cs rule: centres_loop.induct)
    (auto simp: centre_def Let_def builtin_def split: if_splits sum.splits)

lemma bond_centres_builtin: "bond_centres mol ref w n kw = Inl e \<Longrightarrow> builtin e"
  by (auto simp: bond_centres_def split: option.splits sum.splits if_splits
      dest: centres_loop_builtin) (simp add: builtin_def)

lemma assign_rdm1s_builtin:
  "assign_rdm1s lo mol s mo_coeff mo_occ ref pop part multiproc verbose kw = Inl e \<Longrightarrow> builtin e"
  by (auto simp: assign_rdm1s_def verbose_print_def
      split: sum.splits if_splits option.splits prod.splits
      dest: spin_loop_builtin bond_centres_builtin) (simp_all add: builtin_def)

lemma atoms_returns:
  "assign_rdm1s lo mol s mo_coeff mo_occ ref pop ''atoms'' multiproc verbose kw = Inr r \<longleftrightarrow>
     (\<exists>st. spin_loop lo mol s mo_coeff mo_occ ref pop multiproc = Inr st
        \<and> (if 0 < verbose then verbose_print mol (weights st) (domain st) else Inr ()) = Inr ()
        \<and> r = Weights (weights st))"
  by (auto simp: assign_rdm1s_def split: sum.splits)


subsection \<open>A missing threshold\<close>

text \<open>
  Claim C6, as the code has it. Under \<^verbatim>\<open>'bonds'\<close> with no \<^verbatim>\<open>thres\<close> keyword the call never
  returns and never raises \<^verbatim>\<open>MissingParameterError\<close>; whenever the same call under
  \<^verbatim>\<open>'atoms'\<close> returns (the weights are computed and printed without a raise), it raises
  \<^verbatim>\<open>KeyError\<close>, from the lookup \<^verbatim>\<open>kwargs['thres']\<close> of line 143, before any centre is
  computed.
\<close>

theorem bonds_without_thres:
  "assign_rdm1s lo mol s mo_coeff mo_occ ref pop ''bonds'' multiproc verbose None
     \<noteq> Inl MissingParameterError
   \<and> (\<forall>r. assign_rdm1s lo mol s mo_coeff mo_occ ref pop ''bonds'' multiproc verbose None \<noteq> Inr r)
   \<and> (\<forall>r. assign_rdm1s lo mol s mo_coeff mo_occ ref pop ''atoms'' multiproc verbose None = Inr r
        \<longrightarrow> assign_rdm1s lo mol s mo_coeff mo_occ ref pop ''bonds'' multiproc verbose None
              = Inl KeyError)"
proof -
  have 1: "assign_rdm1s lo mol s mo_coeff mo_occ ref pop ''bonds'' multiproc verbose None
     \<noteq> Inl MissingParameterError"
    using assign_rdm1s_builtin [of lo mol s mo_coeff mo_occ ref pop "''bonds''" multiproc verbose
        None MissingParameterError]
    by (auto simp: builtin_def)
  have 2: "assign_rdm1s lo mol s mo_coeff mo_occ ref pop ''bonds'' multiproc verbose None \<noteq> Inr r"
    for r
    by (auto simp: assign_rdm1s_def bond_centres_def split: sum.splits)
  have 3: "assign_rdm1s lo mol s mo_coeff mo_occ ref pop ''bonds'' multiproc verbose None
              = Inl KeyError"
    if "assign_rdm1s lo mol s mo_coeff mo_occ ref pop ''atoms'' multiproc verbose None = Inr r" for r
    using that unfolding atoms_returns
    by (auto simp: assign_rdm1s_def bond_centres_def)
  from 1 2 3 show ?thesis by blast
qed


theorem bonds_without_thres_witness:
  "assign_rdm1s example_lo (example_mol [0, 1] [0, 1] [0, 1]) unit2 (unit2, unit2)
      ([1, 1], [1, 1]) ''restricted'' ''mulliken'' ''atoms'' False 0 None
     = Inr (Weights ([[1, 0], [0, 1]], [[1, 0], [0, 1]]))
   \<and> assign_rdm1s example_lo (example_mol [0, 1] [0, 1] [0, 1]) unit2 (unit2, unit2)
      ([1, 1], [1, 1]) ''restricted'' ''mulliken'' ''bonds'' False 0 None
     = Inl KeyError"
proof -
  have a: "assign_rdm1s example_lo (example_mol [0, 1] [0, 1] [0, 1]) unit2 (unit2, unit2)
      ([1, 1], [1, 1]) ''restricted'' ''mulliken'' ''atoms'' False 0 None
     = Inr (Weights ([[1, 0], [0, 1]], [[1, 0], [0, 1]]))"
    by (simp add: model_defs)
  with bonds_without_thres [of example_lo "example_mol [0, 1] [0, 1] [0, 1]" unit2
      "(unit2, unit2)" "([1, 1], [1, 1])" "''restricted''" "''mulliken''" False 0]
  show ?thesis by blast
qed

text \<open>
  Claim C6, as stated, fails: on the closed-shell example the call raises \<^verbatim>\<open>KeyError\<close>,
  not \<^verbatim>\<open>MissingParameterError\<close>.
\<close>

theorem bonds_without_thres_counterexample:
  "assign_rdm1s example_lo (example_mol [0, 1] [0, 1] [0, 1]) unit2 (unit2, unit2)
      ([1, 1], [1, 1]) ''restricted'' ''mulliken'' ''bonds'' False 0 None
     = Inl KeyError
   \<and> assign_rdm1s example_lo (example_mol [0, 1] [0, 1] [0, 1]) unit2 (unit2, unit2)
      ([1, 1], [1, 1]) ''restricted'' ''mulliken'' ''bonds'' False 0 None
     \<noteq> Inl MissingParameterError"
  by (simp add: model_defs)

subsection \<open>Unknown options\<close>

lemma spin_weights_unbound:
  assumes "pop \<noteq> ''mulliken''" and "pop \<noteq> ''iao''"
  shows "spin_weights lo mol s pop multiproc m occ spin_mo =
           (if \<not> list_all (\<lambda>j. j < length occ) spin_mo then Inl IndexError
            else if multiproc \<and> (spin_mo = [] \<or> num_threads lo = 0) then Inl ValueError
            else if spin_mo = [] then Inr []
            else Inl NameError)"
proof -
  have c: "channel_mo lo mol s pop m spin_mo = Inr None"
    using assms by (simp add: channel_mo_def)
  have k: "map_raising (get_weights n labels ovlp None mocc) [0..<length spin_mo] = Inl NameError"
    if "spin_mo \<noteq> []" for n labels ovlp mocc
    using that by (simp add: upt_conv_Cons get_weights_def)
  show ?thesis
    using k by (auto simp: spin_weights_def c take_elems_def pool_map_def Let_def min_def)
qed

text \<open>
  Claim C7, as the code has it. No call raises \<^verbatim>\<open>InvalidOptionError\<close>. A partition policy
  other than \<^verbatim>\<open>'atoms'\<close>, \<^verbatim>\<open>'bonds'\<close> and \<^verbatim>\<open>'eda'\<close> never returns, and raises
  \<^verbatim>\<open>UnboundLocalError\<close> (line 168 reads the unbound \<^verbatim>\<open>rep_idx\<close>) whenever the same call under
  \<^verbatim>\<open>'atoms'\<close> returns. A population scheme other than \<^verbatim>\<open>'mulliken'\<close> and \<^verbatim>\<open>'iao'\<close> raises
  \<^verbatim>\<open>NameError\<close> (the kernel reads the unbound \<^verbatim>\<open>mo\<close>) when there is an alpha orbital, the
  alpha indices are within the occupation vector and, for the parallel dispatch, the library
  has at least one thread; with no occupied orbital at all and the sequential dispatch it is
  accepted silently under \<^verbatim>\<open>'atoms'\<close>.
\<close>

theorem unknown_options:
  "assign_rdm1s lo mol s mo_coeff mo_occ ref pop part multiproc verbose kw \<noteq> Inl InvalidOptionError
   \<and> (part \<noteq> ''atoms'' \<and> part \<noteq> ''bonds'' \<and> part \<noteq> ''eda'' \<longrightarrow>
        (\<forall>r. assign_rdm1s lo mol s mo_coeff mo_occ ref pop part multiproc verbose kw \<noteq> Inr r)
        \<and> (\<forall>r. assign_rdm1s lo mol s mo_coeff mo_occ ref pop ''atoms'' multiproc verbose kw = Inr r
              \<longrightarrow> assign_rdm1s lo mol s mo_coeff mo_occ ref pop part multiproc verbose kw
                    = Inl UnboundLocalError))
   \<and> (pop \<noteq> ''mulliken'' \<and> pop \<noteq> ''iao'' \<and> alpha mol \<noteq> []
        \<and> list_all (\<lambda>j. j < length (fst mo_occ)) (alpha mol) \<and> (multiproc \<longrightarrow> 0 < num_threads lo)
      \<longrightarrow> assign_rdm1s lo mol s mo_coeff mo_occ ref pop part multiproc verbose kw = Inl NameError)
   \<and> (pop \<noteq> ''mulliken'' \<and> pop \<noteq> ''iao'' \<and> alpha mol = [] \<and> beta mol = [] \<and> \<not> multiproc
      \<longrightarrow> assign_rdm1s lo mol s mo_coeff mo_occ ref pop ''atoms'' multiproc verbose kw
            = Inr (Weights ([], [])))"
proof -
  have 1: "assign_rdm1s lo mol s mo_coeff mo_occ ref pop part multiproc verbose kw
      \<noteq> Inl InvalidOptionError"
    using assign_rdm1s_builtin [of lo mol s mo_coeff mo_occ ref pop part multiproc verbose kw
        InvalidOptionError]
    by (auto simp: builtin_def)
  have 2: "assign_rdm1s lo mol s mo_coeff mo_occ ref pop part multiproc verbose kw \<noteq> Inr r"
    if "part \<noteq> ''atoms''" "part \<noteq> ''bonds''" "part \<noteq> ''eda''" for r
    using that by (auto simp: assign_rdm1s_def split: sum.splits)
  have 3: "assign_rdm1s lo mol s mo_coeff mo_occ ref pop part multiproc verbose kw
      = Inl UnboundLocalError"
    if "part \<noteq> ''atoms''" "part \<noteq> ''bonds''" "part \<noteq> ''eda''"
      and "assign_rdm1s lo mol s mo_coeff mo_occ ref pop ''atoms'' multiproc verbose kw = Inr r"
    for r
    using that(4) that(1-3) unfolding atoms_returns
    by (auto simp: assign_rdm1s_def)
  have 4: "assign_rdm1s lo mol s mo_coeff mo_occ ref pop part multiproc verbose kw = Inl NameError"
    if "pop \<noteq> ''mulliken''" "pop \<noteq> ''iao''" "alpha mol \<noteq> []"
      "list_all (\<lambda>j. j < length (fst mo_occ)) (alpha mol)" "multiproc \<longrightarrow> 0 < num_threads lo"
    using that(3-5)
    by (auto simp: assign_rdm1s_def spin_loop_def spin_weights_unbound [OF that(1,2)])
  have 5: "assign_rdm1s lo mol s mo_coeff mo_occ ref pop ''atoms'' multiproc verbose kw
            = Inr (Weights ([], []))"
    if "pop \<noteq> ''mulliken''" "pop \<noteq> ''iao''" "alpha mol = []" "beta mol = []" "\<not> multiproc"
    using that(3-5)
    by (auto simp: assign_rdm1s_def spin_loop_def spin_weights_unbound [OF that(1,2)]
        verbose_print_def)
  from 1 2 3 4 5 show ?thesis by blast
qed

theorem unknown_options_witness:
  "assign_rdm1s example_lo (example_mol [0, 1] [0, 1] [0, 1]) unit2 (unit2, unit2)
      ([1, 1], [1, 1]) ''restricted'' ''xyz'' ''atoms'' True 0 None = Inl NameError
   \<and> assign_rdm1s example_lo (example_mol [0, 1] [0, 1] [0, 1]) unit2 (unit2, unit2)
      ([1, 1], [1, 1]) ''restricted'' ''mulliken'' ''atoms'' True 0 None
       = Inr (Weights ([[1, 0], [0, 1]], [[1, 0], [0, 1]]))
   \<and> assign_rdm1s example_lo (example_mol [0, 1] [0, 1] [0, 1]) unit2 (unit2, unit2)
      ([1, 1], [1, 1]) ''restricted'' ''mulliken'' ''xyz'' True 0 None = Inl UnboundLocalError
   \<and> assign_rdm1s example_lo (example_mol [] [] [0, 1]) unit2 (unit2, unit2)
      ([0, 0], [0, 0]) ''unrestricted'' ''xyz'' ''atoms'' False 0 None = Inr (Weights ([], []))"
proof -
  have a: "assign_rdm1s example_lo (example_mol [0, 1] [0, 1] [0, 1]) unit2 (unit2, unit2)
      ([1, 1], [1, 1]) ''restricted'' ''mulliken'' ''atoms'' True 0 None
       = Inr (Weights ([[1, 0], [0, 1]], [[1, 0], [0, 1]]))"
    by (simp add: model_defs)
  have p: "''xyz'' \<noteq> ''mulliken'' \<and> ''xyz'' \<noteq> ''iao''
      \<and> alpha (example_mol [0, 1] [0, 1] [0, 1]) \<noteq> []
      \<and> list_all (\<lambda>j. j < length (fst ([1, 1], [1, 1]))) (alpha (example_mol [0, 1] [0, 1] [0, 1]))
      \<and> (True \<longrightarrow> 0 < num_threads example_lo)"
    by (simp add: example_mol_def example_lo_def)
  have q: "''xyz'' \<noteq> ''atoms'' \<and> ''xyz'' \<noteq> ''bonds'' \<and> ''xyz'' \<noteq> ''eda''"
    by simp
  have e: "''xyz'' \<noteq> ''mulliken'' \<and> ''xyz'' \<noteq> ''iao'' \<and> alpha (example_mol [] [] [0, 1]) = []
      \<and> beta (example_mol [] [] [0, 1]) = [] \<and> \<not> False"
    by (simp add: example_mol_def)
  note u1 = unknown_options [of example_lo "example_mol [0, 1] [0, 1] [0, 1]" unit2
      "(unit2, unit2)" "([1, 1], [1, 1])" "''restricted''" "''xyz''" "''atoms''" True 0 None]
  note u2 = unknown_options [of example_lo "example_mol [0, 1] [0, 1] [0, 1]" unit2
      "(unit2, unit2)" "([1, 1], [1, 1])" "''restricted''" "''mulliken''" "''xyz''" True 0 None]
  note u3 = unknown_options [of example_lo "example_mol [] [] [0, 1]" unit2 "(unit2, unit2)"
      "([0, 0], [0, 0])" "''unrestricted''" "''xyz''" "''atoms''" False 0 None]
  note w1 = u1 [THEN conjunct2, THEN conjunct2, THEN conjunct1, THEN mp, OF p]
  note w2 = u2 [THEN conjunct2, THEN conjunct1, THEN mp, OF q, THEN conjunct2, THEN spec,
      THEN mp, OF a]
  note w3 = u3 [THEN conjunct2, THEN conjunct2, THEN conjunct2, THEN mp, OF e]
  show ?thesis
    using w1 a w2 w3 by (intro conjI)
qed

text \<open>
  Claim C7, as stated, fails: the scheme \<^verbatim>\<open>'xyz'\<close> ends in \<^verbatim>\<open>NameError\<close> and the policy
  \<^verbatim>\<open>'xyz'\<close> in \<^verbatim>\<open>UnboundLocalError\<close>.
\<close>

theorem unknown_options_counterexample:
  "assign_rdm1s example_lo (example_mol [0, 1] [0, 1] [0, 1]) unit2 (unit2, unit2)
      ([1, 1], [1, 1]) ''restricted'' ''xyz'' ''atoms'' False 0 None = Inl NameError
   \<and> assign_rdm1s example_lo (example_mol [0, 1] [0, 1] [0, 1]) unit2 (unit2, unit2)
      ([1, 1], [1, 1]) ''restricted'' ''xyz'' ''atoms'' False 0 None \<noteq> Inl InvalidOptionError
   \<and> assign_rdm1s example_lo (example_mol [0, 1] [0, 1] [0, 1]) unit2 (unit2, unit2)
      ([1, 1], [1, 1]) ''restricted'' ''mulliken'' ''xyz'' False 0 None = Inl UnboundLocalError
   \<and> assign_rdm1s example_lo (example_mol [0, 1] [0, 1] [0, 1]) unit2 (unit2, unit2)
      ([1, 1], [1, 1]) ''restricted'' ''mulliken'' ''xyz'' False 0 None \<noteq> Inl InvalidOptionError"
  by (simp add: model_defs)

subsection \<open>Parallel and sequential dispatch\<close>

text \<open>Where every channel the loop visits has an occupied orbital and the library has a
  thread, the two dispatch modes give the same outcome.\<close>

lemma spin_weights_parallel:
  assumes "spin_mo \<noteq> []" and "0 < num_threads lo"
  shows "spin_weights lo mol s pop True m occ spin_mo = spin_weights lo mol s pop False m occ spin_mo"
  using assms
  by (auto simp: spin_weights_def pool_map_def Let_def min_def split: sum.splits)

lemma assign_rdm1s_parallel:
  assumes "alpha mol \<noteq> []" and "closed_shell ref mol \<or> beta mol \<noteq> []" and "0 < num_threads lo"
  shows "assign_rdm1s lo mol s mo_coeff mo_occ ref pop part True verbose kw
       = assign_rdm1s lo mol s mo_coeff mo_occ ref pop part False verbose kw"
proof -
  have "spin_loop lo mol s mo_coeff mo_occ ref pop True
      = spin_loop lo mol s mo_coeff mo_occ ref pop False"
    using assms
    by (auto simp: spin_loop_def spin_weights_parallel split: sum.splits)
  then show ?thesis
    by (simp add: assign_rdm1s_def)
qed

text \<open>
  Claim C5 at a one-electron molecule (one alpha orbital, no beta orbital, unrestricted
  reference): the beta channel has an empty \<^verbatim>\<open>domain\<close>, the parallel branch asks for a pool of
  \<^verbatim>\<open>min(0, num_threads)\<close> processes and raises \<^verbatim>\<open>ValueError\<close>, and the sequential branch
  returns the weights.
\<close>

theorem pool_of_no_process:
  "assign_rdm1s example_lo (example_mol [0] [] [0, 1]) unit2 (unit2, unit2) ([1, 0], [0, 0])
      ''unrestricted'' ''mulliken'' ''atoms'' True 0 None = Inl ValueError
   \<and> assign_rdm1s example_lo (example_mol [0] [] [0, 1]) unit2 (unit2, unit2) ([1, 0], [0, 0])
      ''unrestricted'' ''mulliken'' ''atoms'' False 0 None = Inr (Weights ([[1, 0]], []))"
  by (simp add: model_defs)

subsection \<open>The centre of one orbital\<close>

text \<open>The decision of lines 149 to 156 for a weight vector over at least two atoms: \<open>m\<close> is
  an index of a largest weight and \<open>m2\<close> an index of a largest weight among the others.\<close>

lemma argsort_props:
  "length (argsort w) = length w" "distinct (argsort w)" "set (argsort w) = {0..<length w}"
  "sorted (map (\<lambda>i. w ! i) (argsort w))"
  by (simp_all add: argsort_def)

lemma centre_rule:
  assumes "2 \<le> length w"
  shows "\<exists>m m2. m < length w \<and> m2 < length w \<and> m2 \<noteq> m
           \<and> (\<forall>k<length w. w ! k \<le> w ! m)
           \<and> (\<forall>k<length w. k \<noteq> m \<longrightarrow> w ! k \<le> w ! m2)
           \<and> centre thres w = (if \<bar>w ! m\<bar> > thres then Inr (m, m)
                                else Inr (min m m2, max m m2))"
proof -
  let ?p = "argsort w" and ?n = "length w"
  let ?m = "?p ! (?n - 1)" and ?m2 = "?p ! (?n - 2)"
  note ps = argsort_props [of w]
  have w: "w \<noteq> []" "0 < ?n" "1 < ?n"
    using assms by auto
  have r0: "rev ?p ! 0 = ?m"
    using w ps(1) rev_nth [of 0 ?p] by simp
  have r1: "rev ?p ! 1 = ?m2"
    using w ps(1) rev_nth [of 1 ?p] by (simp add: numeral_2_eq_2)
  have in_p: "?p ! i < ?n" if "i < ?n" for i
  proof -
    have "?p ! i \<in> set ?p" using that ps(1) by simp
    then show ?thesis unfolding ps(3) by simp
  qed
  have idx: "\<exists>i<?n. ?p ! i = k" if "k < ?n" for k
  proof -
    have "k \<in> set ?p" unfolding ps(3) using that by simp
    then show ?thesis unfolding in_set_conv_nth ps(1) .
  qed
  have mono: "w ! (?p ! i) \<le> w ! (?p ! j)" if "i \<le> j" "j < ?n" for i j
    using sorted_nth_mono [OF ps(4), of i j] that ps(1) by simp
  have m: "?m < ?n" and m2: "?m2 < ?n"
    using assms in_p by simp_all
  have ne: "?m2 \<noteq> ?m"
    using w ps(1) nth_eq_iff_index_eq [OF ps(2), of "?n - 2" "?n - 1"] by simp
  have top: "w ! k \<le> w ! ?m" if k: "k < ?n" for k
  proof -
    from idx [OF k] obtain i where i: "i < ?n" "?p ! i = k" by blast
    then have "i \<le> ?n - 1" by simp
    then show ?thesis using mono [of i "?n - 1"] w i(2) by simp
  qed
  have snd: "w ! k \<le> w ! ?m2" if k: "k < ?n" and km: "k \<noteq> ?m" for k
  proof -
    from idx [OF k] obtain i where i: "i < ?n" "?p ! i = k" by blast
    then have "i \<noteq> ?n - 1" using km by auto
    then have "i \<le> ?n - 2" using i(1) by simp
    then show ?thesis using mono [of i "?n - 2"] w i(2) by simp
  qed
  have ne_p: "rev ?p \<noteq> []" and len: "\<not> length (rev ?p) < 2"
    using assms ps(1) by auto
  have "centre thres w = (if \<bar>w ! ?m\<bar> > thres then Inr (?m, ?m)
                                else Inr (min ?m ?m2, max ?m ?m2))"
    unfolding centre_def Let_def using ne_p len r0 r1 by simp
  with m m2 ne top snd show ?thesis by blast
qed

text \<open>
  Claim C3 at an open-shell molecule (two alpha orbitals, one beta orbital, unrestricted
  reference, threshold 0.9). The alpha orbital at position 1 has the weights \<open>[0, 1]\<close>, whose
  centre by the rule is \<open>(1, 1)\<close>; the loop of line 147 runs over the \<^verbatim>\<open>domain\<close> left by the
  beta channel, visits position 0 only, and the orbital keeps the initial row \<open>(0, 0)\<close>: it is
  returned in the group of the centre pair \<open>(0, 0)\<close>.
\<close>

theorem stale_domain_centres:
  "assign_rdm1s example_lo (example_mol [0, 1] [0] [0, 1]) unit2 (unit2, unit2) ([1, 1], [1, 0])
      ''unrestricted'' ''mulliken'' ''atoms'' False 0 (Some 0.9)
     = Inr (Weights ([[1, 0], [0, 1]], [[1, 0]]))
   \<and> centre 0.9 [0, 1] = Inr (1, 1)
   \<and> assign_rdm1s example_lo (example_mol [0, 1] [0] [0, 1]) unit2 (unit2, unit2) ([1, 1], [1, 0])
      ''unrestricted'' ''mulliken'' ''bonds'' False 0 (Some 0.9)
     = Inr (Groups ([[0, 1]], [[0]]) ([(0, 0)], [(0, 0)]))"
  by (simp add: model_defs)

subsection \<open>The groups of the bond-wise partitioning\<close>

lemma unique_rows_props:
  "distinct (unique_rows cs)" "set (unique_rows cs) = set cs" "sorted (unique_rows cs)"
  by (simp_all add: unique_rows_def)

lemma where_rows_inj:
  assumes "u \<in> set cs" and "where_rows cs u = where_rows cs v"
  shows "u = v"
proof -
  from assms(1) obtain j where j: "j < length cs" "cs ! j = u"
    by (auto simp: in_set_conv_nth)
  then have "j \<in> set (where_rows cs u)"
    by (simp add: where_rows_def)
  then have "j \<in> set (where_rows cs v)"
    using assms(2) by simp
  then show ?thesis
    using j(2) by (simp add: where_rows_def)
qed

lemma distinct_concat_where:
  assumes "distinct us"
  shows "distinct (concat (map (where_rows cs) us))"
  using assms
proof (induction us)
  case Nil
  then show ?case by simp
next
  case (Cons u us)
  have "set (where_rows cs u) \<inter> set (where_rows cs v) = {}" if "v \<in> set us" for v
    using Cons.prems that by (auto simp: where_rows_def)
  then show ?case
    using Cons by (auto simp: where_rows_def)
qed

lemma set_concat_where:
  assumes "set us = set cs"
  shows "set (concat (map (where_rows cs) us)) = {0..<length cs}"
proof
  show "set (concat (map (where_rows cs) us)) \<subseteq> {0..<length cs}"
    by (auto simp: where_rows_def)
  show "{0..<length cs} \<subseteq> set (concat (map (where_rows cs) us))"
  proof
    fix j assume "j \<in> {0..<length cs}"
    then have j: "j < length cs" by simp
    then have "cs ! j \<in> set us" using assms by simp
    moreover have "j \<in> set (where_rows cs (cs ! j))"
      using j by (simp add: where_rows_def)
    ultimately show "j \<in> set (concat (map (where_rows cs) us))"
      by auto
  qed
qed

lemma rep_idx_partition: "partition_by_centre cs (rep_idx cs) (unique_rows cs)"
proof -
  note u = unique_rows_props(1,2) [of cs]
  have "distinct (concat (rep_idx cs))"
    unfolding rep_idx_def by (rule distinct_concat_where [OF u(1)])
  moreover have "set (concat (rep_idx cs)) = {0..<length cs}"
    unfolding rep_idx_def by (rule set_concat_where [OF u(2)])
  moreover have "\<forall>k \<in> {0..<length (unique_rows cs)}.
      set (rep_idx cs ! k) = set (filter (\<lambda>j. cs ! j = unique_rows cs ! k) [0..<length cs])"
    by (simp add: rep_idx_def where_rows_def)
  moreover have "length (rep_idx cs) = length (unique_rows cs)"
    by (simp add: rep_idx_def)
  ultimately show ?thesis
    unfolding partition_by_centre_def using u by blast
qed

lemma centres_loop_length: "centres_loop t w js cs = Inr cs' \<Longrightarrow> length cs' = length cs"
  by (induction t w js cs rule: centres_loop.induct) (auto split: if_splits sum.splits)

lemma bond_centres_length:
  assumes "bond_centres mol ref w n kw = Inr (ca, cb)"
  shows "length ca = length (alpha mol)
    \<and> length cb = (if closed_shell ref mol then length (alpha mol) else length (beta mol))"
  using assms
  by (auto simp: bond_centres_def split: option.splits sum.splits if_splits
      dest: centres_loop_length)

text \<open>
  Claim C4. When a call under \<^verbatim>\<open>'bonds'\<close> returns, it returns, for each spin channel, the
  groups and the unique pairs of that channel's centre rows: one row per occupied orbital
  of the channel (the alpha rows again for the beta channel of a closed-shell call). The
  groups are pairwise disjoint, together they hold every position of the channel, the
  returned pairs are distinct and are exactly the pairs that occur, and each group holds the
  positions of one pair.
\<close>

theorem bonds_groups_partition:
  assumes "assign_rdm1s lo mol s mo_coeff mo_occ ref pop ''bonds'' multiproc verbose kw = Inr r"
  shows "\<exists>st ca cb. spin_loop lo mol s mo_coeff mo_occ ref pop multiproc = Inr st
           \<and> bond_centres mol ref (weights st) (domain st) kw = Inr (ca, cb)
           \<and> length ca = length (alpha mol)
           \<and> length cb = (if closed_shell ref mol then length (alpha mol) else length (beta mol))
           \<and> r = Groups (rep_idx ca, rep_idx cb) (unique_rows ca, unique_rows cb)
           \<and> partition_by_centre ca (rep_idx ca) (unique_rows ca)
           \<and> partition_by_centre cb (rep_idx cb) (unique_rows cb)"
proof -
  from assms obtain st ca cb where
    st: "spin_loop lo mol s mo_coeff mo_occ ref pop multiproc = Inr st"
    and bc: "bond_centres mol ref (weights st) (domain st) kw = Inr (ca, cb)"
    and r: "r = Groups (rep_idx ca, rep_idx cb) (unique_rows ca, unique_rows cb)"
    by (auto simp: assign_rdm1s_def split: sum.splits if_splits option.splits prod.splits)
  with bond_centres_length [OF bc] rep_idx_partition [of ca] rep_idx_partition [of cb]
  show ?thesis by blast
qed

theorem bonds_groups_partition_witness:
  "assign_rdm1s example_lo (example_mol [0, 1, 2] [0, 1] [0, 1, 1]) unit3 (unit3, unit3)
      ([1, 1, 1], [1, 1, 0]) ''unrestricted'' ''mulliken'' ''bonds'' False 0 (Some 0.9)
     = Inr (Groups ([[0, 2], [1]], [[0], [1]]) ([(0, 0), (1, 1)], [(0, 0), (1, 1)]))
   \<and> (\<exists>ca cb. length ca = 3 \<and> length cb = 2
         \<and> Groups ([[0, 2], [1]], [[0], [1]]) ([(0, 0), (1, 1)], [(0, 0), (1, 1)])
             = Groups (rep_idx ca, rep_idx cb) (unique_rows ca, unique_rows cb)
         \<and> partition_by_centre ca (rep_idx ca) (unique_rows ca)
         \<and> partition_by_centre cb (rep_idx cb) (unique_rows cb))"
proof -
  have a: "assign_rdm1s example_lo (example_mol [0, 1, 2] [0, 1] [0, 1, 1]) unit3 (unit3, unit3)
      ([1, 1, 1], [1, 1, 0]) ''unrestricted'' ''mulliken'' ''bonds'' False 0 (Some 0.9)
     = Inr (Groups ([[0, 2], [1]], [[0], [1]]) ([(0, 0), (1, 1)], [(0, 0), (1, 1)]))"
    by (simp add: model_defs unit3_def)
  have c: "\<not> closed_shell ''unrestricted'' (example_mol [0, 1, 2] [0, 1] [0, 1, 1])"
    by (simp add: closed_shell_def)
  have l: "length (alpha (example_mol [0, 1, 2] [0, 1] [0, 1, 1])) = 3"
    "length (beta (example_mol [0, 1, 2] [0, 1] [0, 1, 1])) = 2"
    by (simp_all add: example_mol_def)
  from bonds_groups_partition [OF a] obtain ca cb where
    "length ca = 3 \<and> length cb = 2
         \<and> Groups ([[0, 2], [1]], [[0], [1]]) ([(0, 0), (1, 1)], [(0, 0), (1, 1)])
             = Groups (rep_idx ca, rep_idx cb) (unique_rows ca, unique_rows cb)
         \<and> partition_by_centre ca (rep_idx ca) (unique_rows ca)
         \<and> partition_by_centre cb (rep_idx cb) (unique_rows cb)"
    unfolding l if_not_P [OF c] by blast
  then show ?thesis using a by blast
qed

subsection \<open>Conservation of the population\<close>

lemma sum_list_add_at:
  "k < length p \<Longrightarrow> sum_list (p[k := p ! k + x]) = sum_list p + (x::real)"
  by (induction p arbitrary: k) (auto split: nat.splits)

lemma add_pops_sum:
  assumes "\<forall>(i, k) \<in> set ps. i < length pop \<and> k < length p"
  shows "\<exists>w. add_pops pop ps p = Inr w \<and> length w = length p
           \<and> sum_list w = sum_list p + (\<Sum>(i, k)\<leftarrow>ps. pop ! i)"
  using assms
proof (induction ps arbitrary: p)
  case Nil
  then show ?case by simp
next
  case (Cons a ps)
  obtain i k where a: "a = (i, k)" by (cases a)
  have ik: "i < length pop" "k < length p"
    using Cons.prems a by auto
  have "\<forall>(i', k') \<in> set ps. i' < length pop \<and> k' < length (p[k := p ! k + pop ! i])"
    using Cons.prems by auto
  from Cons.IH [OF this] obtain w where
    w: "add_pops pop ps (p[k := p ! k + pop ! i]) = Inr w"
       "length w = length p"
       "sum_list w = sum_list (p[k := p ! k + pop ! i]) + (\<Sum>(i, k)\<leftarrow>ps. pop ! i)"
    by auto
  show ?case
    using w ik by (simp add: a sum_list_add_at)
qed

lemma enumerate_sum:
  assumes "length labels = length pop"
  shows "(\<Sum>(i, k)\<leftarrow>enumerate 0 labels. pop ! i) = sum_list pop"
proof -
  have f: "map fst (enumerate 0 labels) = [0..<length pop]"
    using assms by simp
  have "map (\<lambda>(i, k). pop ! i) (enumerate 0 labels) = map ((!) pop) (map fst (enumerate 0 labels))"
    unfolding map_map by (rule map_cong) auto
  also have "\<dots> = map ((!) pop) [0..<length pop]"
    unfolding f ..
  also have "\<dots> = pop"
    by (rule map_nth)
  finally show ?thesis by simp
qed

lemma population_sum:
  assumes "contract_ij_ji rdm1 ovlp = Inr pop" and "length labels = length pop"
    and "list_all (\<lambda>k. k < n_atm) labels"
  shows "\<exists>w. population n_atm labels ovlp rdm1 = Inr w \<and> length w = n_atm
           \<and> sum_list w = sum_list pop"
proof -
  have "\<forall>(i, k) \<in> set (enumerate 0 labels). i < length pop \<and> k < length (replicate n_atm (0::real))"
    using assms(2,3) by (auto simp: in_set_enumerate_eq list_all_iff)
  from add_pops_sum [OF this] obtain w where
    "add_pops pop (enumerate 0 labels) (replicate n_atm 0) = Inr w"
    "length w = length (replicate n_atm (0::real))"
    "sum_list w = sum_list (replicate n_atm 0) + (\<Sum>(i, k)\<leftarrow>enumerate 0 labels. pop ! i)"
    by blast
  then show ?thesis
    using enumerate_sum [OF assms(2)] assms(1)
    by (simp add: population_def sum_list_replicate)
qed

lemma contract_rdm1:
  assumes "square s (length orb)" and "orb \<noteq> []"
  shows "contract_ij_ji (make_rdm1 orb occ) s
      = Inr (map (\<lambda>k. \<Sum>l\<leftarrow>[0..<length orb]. occ * orb ! k * orb ! l * s ! k ! l) [0..<length orb])"
proof -
  obtain c0 cs where s: "s = c0 # cs" and c0: "length c0 = length orb"
    using assms by (cases s) (auto simp: square_def)
  have nr: "nrows (make_rdm1 orb occ) = length orb" "nrows s = length orb"
    using assms(2) s c0 by (cases orb; simp add: nrows_def make_rdm1_def)+
  have len: "length (make_rdm1 orb occ) = length orb" "length s = length orb"
    using assms(1) by (simp_all add: make_rdm1_def square_def)
  have "(\<Sum>l\<leftarrow>[0..<length orb]. make_rdm1 orb occ ! l ! k * s ! k ! l)
      = (\<Sum>l\<leftarrow>[0..<length orb]. occ * orb ! k * orb ! l * s ! k ! l)" if "k < length orb" for k
    using that by (intro arg_cong [where f = sum_list] map_cong) (simp_all add: make_rdm1_def)
  then have "map (\<lambda>k. \<Sum>l\<leftarrow>[0..<length orb]. make_rdm1 orb occ ! l ! k * s ! k ! l) [0..<length orb]
      = map (\<lambda>k. \<Sum>l\<leftarrow>[0..<length orb]. occ * orb ! k * orb ! l * s ! k ! l) [0..<length orb]"
    by (intro map_cong) simp_all
  then show ?thesis
    by (simp add: contract_ij_ji_def nr len)
qed

lemma trace_is_quad_form:
  "(\<Sum>k\<leftarrow>[0..<n]. \<Sum>l\<leftarrow>[0..<n]. occ * c ! k * c ! l * s ! k ! l)
     = occ * (\<Sum>k\<leftarrow>[0..<n]. \<Sum>l\<leftarrow>[0..<n]. c ! k * s ! l ! k * (c ! l :: real))"
proof -
  have "(\<Sum>k\<leftarrow>[0..<n]. \<Sum>l\<leftarrow>[0..<n]. occ * c ! k * c ! l * s ! k ! l)
      = (\<Sum>k = 0..<n. \<Sum>l = 0..<n. occ * (c ! l * s ! k ! l * c ! k))"
    by (simp add: interv_sum_list_conv_sum_set_nat mult_ac)
  also have "\<dots> = (\<Sum>l = 0..<n. \<Sum>k = 0..<n. occ * (c ! l * s ! k ! l * c ! k))"
    by (rule sum.swap)
  also have "\<dots> = occ * (\<Sum>l = 0..<n. \<Sum>k = 0..<n. c ! l * s ! k ! l * c ! k)"
    by (simp add: sum_distrib_left)
  finally show ?thesis
    by (simp add: interv_sum_list_conv_sum_set_nat)
qed

text \<open>
  Claim C2. Under the \<^verbatim>\<open>'mulliken'\<close> scheme the overlap of the kernel is \<open>s\<close>. For an occupied
  orbital whose column is normalized in \<open>s\<close> (an \<open>n\<close> by \<open>n\<close> array for the \<open>n\<close> entries of
  the column, with one label per atomic orbital, each naming an atom of the molecule),
  \<open>get_weights\<close> returns a weight vector over the atoms whose sum is the sum of the
  atomic-orbital populations \<^verbatim>\<open>pop\<close>, the diagonal of the product of \<^verbatim>\<open>rdm1\<close> and \<open>s\<close>, and
  that sum is the occupation number of the orbital. The arithmetic is that of the reals.
\<close>

theorem mulliken_population_conserved:
  assumes "j < length mo" and "j < length mocc"
    and "square s (length (mo ! j))" and "length labels = length (mo ! j)"
    and "list_all (\<lambda>k. k < n_atm) labels"
    and "quad_form (mo ! j) s = 1"
  shows "\<exists>pop w. contract_ij_ji (make_rdm1 (mo ! j) (mocc ! j)) (ovlp_of lo mol s ''mulliken'') = Inr pop
           \<and> population n_atm labels (ovlp_of lo mol s ''mulliken'') (make_rdm1 (mo ! j) (mocc ! j)) = Inr w
           \<and> get_weights n_atm labels (ovlp_of lo mol s ''mulliken'') (Some mo) mocc j = Inr w
           \<and> length w = n_atm
           \<and> sum_list w = sum_list pop
           \<and> sum_list pop = mocc ! j"
proof -
  let ?orb = "mo ! j" and ?occ = "mocc ! j"
  let ?pop = "map (\<lambda>k. \<Sum>l\<leftarrow>[0..<length ?orb]. ?occ * ?orb ! k * ?orb ! l * s ! k ! l)
                [0..<length ?orb]"
  have ne: "?orb \<noteq> []"
    using assms(6) by (auto simp: quad_form_def)
  have ov: "ovlp_of lo mol s ''mulliken'' = s"
    by (simp add: ovlp_of_def)
  have c: "contract_ij_ji (make_rdm1 ?orb ?occ) s = Inr ?pop"
    by (rule contract_rdm1 [OF assms(3) ne])
  have l: "length labels = length ?pop"
    using assms(4) by simp
  from population_sum [OF c l assms(5)] obtain w where
    w: "population n_atm labels s (make_rdm1 ?orb ?occ) = Inr w" "length w = n_atm"
       "sum_list w = sum_list ?pop"
    by blast
  have g: "get_weights n_atm labels s (Some mo) mocc j = Inr w"
    using assms(1,2) w(1) by (simp add: get_weights_def)
  have "sum_list ?pop = ?occ * quad_form ?orb s"
    unfolding quad_form_def using trace_is_quad_form [where n = "length ?orb" and occ = ?occ and c = ?orb and s = s]
    by simp
  then have t: "sum_list ?pop = ?occ"
    using assms(6) by simp
  show ?thesis
    unfolding ov using c w g t by blast
qed


theorem mulliken_population_conserved_witness:
  "quad_form ([[2 / 3, 2 / 3]] ! 0) [[1, 1 / 8], [1 / 8, 1]] = 1
   \<and> square [[1, 1 / 8], [1 / 8, 1]] (length ([[2 / 3, 2 / 3 :: real]] ! 0))
   \<and> get_weights 2 [0, 1] (ovlp_of example_lo (example_mol [0] [0] [0, 1])
         [[1, 1 / 8], [1 / 8, 1]] ''mulliken'') (Some [[2 / 3, 2 / 3]]) [2] 0 = Inr [1, 1]
   \<and> (\<exists>pop w. get_weights 2 [0, 1] (ovlp_of example_lo (example_mol [0] [0] [0, 1])
         [[1, 1 / 8], [1 / 8, 1]] ''mulliken'') (Some [[2 / 3, 2 / 3]]) [2] 0 = Inr w
        \<and> sum_list w = sum_list pop \<and> sum_list pop = [2] ! 0)"
proof -
  have q: "quad_form ([[2 / 3, 2 / 3]] ! 0) [[1, 1 / 8], [1 / 8, 1]] = 1"
    by (simp add: quad_form_def upt_rec eval_nat_numeral)
  have sq: "square [[1, 1 / 8], [1 / 8, 1]] (length ([[2 / 3, 2 / 3 :: real]] ! 0))"
    by (simp add: square_def)
  have g: "get_weights 2 [0, 1] (ovlp_of example_lo (example_mol [0] [0] [0, 1])
         [[1, 1 / 8], [1 / 8, 1]] ''mulliken'') (Some [[2 / 3, 2 / 3]]) [2] 0 = Inr [1, 1]"
    by (simp add: model_defs)
  have j: "0 < length [[2 / 3, 2 / 3 :: real]]" "0 < length [2 :: real]"
    "length [0, 1 :: nat] = length ([[2 / 3, 2 / 3 :: real]] ! 0)"
    "list_all (\<lambda>k. k < 2) [0, 1 :: nat]"
    by simp_all
  from mulliken_population_conserved [OF j(1,2) sq j(3,4) q,
      of example_lo "example_mol [0] [0] [0, 1]"]
  have "\<exists>pop w. get_weights 2 [0, 1] (ovlp_of example_lo (example_mol [0] [0] [0, 1])
         [[1, 1 / 8], [1 / 8, 1]] ''mulliken'') (Some [[2 / 3, 2 / 3]]) [2] 0 = Inr w
        \<and> sum_list w = sum_list pop \<and> sum_list pop = [2] ! 0"
    by blast
  with q sq g show ?thesis by (intro conjI)
qed

section \<open>The closed-shell reference\<close>

lemma put_cols_copy:
  assumes "take_cols a idx = Inr c" and "put_cols b idx c = Inr b'" and "j \<in> set idx"
  shows "b' ! j = a ! j"
proof -
  have c: "c = map (\<lambda>j. a ! j) idx"
    using assms(1) by (auto simp: take_cols_def split: if_splits)
  have r: "\<forall>j \<in> set idx. j < length b"
    using assms(2) by (auto simp: put_cols_def list_all_iff split: if_splits)
  have "b' = fold (\<lambda>(j, c) a. a[j := c]) (zip idx (map (\<lambda>j. a ! j) idx)) b"
    using assms(2) unfolding c by (auto simp: put_cols_def split: if_splits)
  then show ?thesis
    using fold_update_copy [OF r assms(3), of "\<lambda>j. a ! j"] by simp
qed

lemma loc_orbs_closed_shell:
  assumes "closed_shell ref mol" and "loc_orbs lo mol mo_coeff s ref variant = (None, st)"
  shows "(\<forall>j \<in> set (alpha mol). mo_b st ! j = mo_a st ! j)
    \<and> runs st = (if known_variant variant then 1 else 0)"
proof -
  obtain oa a n where la: "localize lo mol s variant (fst mo_coeff) (alpha mol) = (oa, a, n)"
    by (metis prod_cases3)
  have oa: "oa = None"
    using assms(2) la by (auto simp: loc_orbs_def split: option.splits)
  obtain c b' where c: "take_cols a (alpha mol) = Inr c"
    and b': "put_cols (snd mo_coeff) (alpha mol) c = Inr b'"
    and st: "st = \<lparr>mo_a = a, mo_b = b', runs = n\<rparr>"
    using assms la unfolding oa by (auto simp: loc_orbs_def split: sum.splits)
  have "n = (if known_variant variant then 1 else 0)"
    using localize_runs la oa by blast
  then show ?thesis
    using put_cols_copy [OF c b'] by (simp add: st)
qed

lemma loc_orbs_closed_shell_runs:
  assumes "closed_shell ref mol"
  shows "runs (snd (loc_orbs lo mol mo_coeff s ref variant)) \<le> 1"
proof -
  have "n \<le> 1" if "localize lo mol s variant m spin_mo = (out, m', n)" for m spin_mo out m' n
    using that by (auto simp: localize_def Let_def split: if_splits sum.splits)
  then show ?thesis
    using assms
    by (auto simp: loc_orbs_def split: prod.splits option.splits sum.splits)
qed

lemma spin_loop_closed_shell:
  assumes "closed_shell ref mol"
  shows "spin_loop lo mol s (a, b) (oa, ob) ref pop multiproc
       = spin_loop lo mol s (a, b') (oa, ob') ref pop multiproc"
    and "spin_loop lo mol s mo_coeff mo_occ ref pop multiproc = Inr st \<Longrightarrow>
           snd (weights st) = fst (weights st)
           \<and> evaluated st = map (Pair 0) [0..<length (alpha mol)]"
  using assms by (auto simp: spin_loop_def split: sum.splits)

lemma bond_centres_closed_shell:
  assumes "closed_shell ref mol" and "bond_centres mol ref w n kw = Inr (ca, cb)"
  shows "cb = ca"
  using assms by (auto simp: bond_centres_def split: option.splits sum.splits)

lemma groups_returned:
  assumes "assign_rdm1s lo mol s mo_coeff mo_occ ref pop part multiproc verbose kw
             = Inr (Groups g u)"
  shows "\<exists>st ca cb. spin_loop lo mol s mo_coeff mo_occ ref pop multiproc = Inr st
           \<and> bond_centres mol ref (weights st) (domain st) kw = Inr (ca, cb)
           \<and> g = (rep_idx ca, rep_idx cb) \<and> u = (unique_rows ca, unique_rows cb)"
  using assms
  by (auto simp: assign_rdm1s_def split: sum.splits if_splits option.splits prod.splits)

text \<open>
  Claim C1. For a molecule of spin 0 and the reference \<^verbatim>\<open>'restricted'\<close>:
  when \<open>loc_orbs\<close> returns, every column of the beta matrix indexed by the occupied set
  (\<^verbatim>\<open>mol.alpha\<close>, the one index set the closed-shell pass uses for both matrices) equals that
  column of the alpha matrix, and an iterative optimizer has run once for a recognised
  variant (never for another one, and never more than once whatever the outcome); when the
  loop over the spin channels of \<open>assign_rdm1s\<close> completes, the beta weights are the alpha
  weights and \<open>get_weights\<close> has been called once per alpha position and for no beta
  position; the centre rows of the two channels are the same rows; a returned pair of weight
  lists has equal components, and so have the returned groups and unique centre pairs; and the outcome does not depend on the beta coefficients
  and occupations at all.
\<close>

theorem closed_shell_beta_is_alpha:
  assumes "ref = ''restricted''" and "spin mol = 0"
  shows "(\<forall>st. loc_orbs lo mol mo_coeff s ref variant = (None, st) \<longrightarrow>
            (\<forall>j \<in> set (alpha mol). mo_b st ! j = mo_a st ! j)
            \<and> runs st = (if known_variant variant then 1 else 0))
    \<and> runs (snd (loc_orbs lo mol mo_coeff s ref variant)) \<le> 1
    \<and> (\<forall>st. spin_loop lo mol s mo_coeff mo_occ ref pop multiproc = Inr st \<longrightarrow>
            snd (weights st) = fst (weights st)
            \<and> evaluated st = map (Pair 0) [0..<length (alpha mol)])
    \<and> (\<forall>w n ca cb. bond_centres mol ref w n kw = Inr (ca, cb) \<longrightarrow> cb = ca)
    \<and> (\<forall>wa wb. assign_rdm1s lo mol s mo_coeff mo_occ ref pop part multiproc verbose kw
                  = Inr (Weights (wa, wb)) \<longrightarrow> wb = wa)
    \<and> (\<forall>ga gb ua ub. assign_rdm1s lo mol s mo_coeff mo_occ ref pop part multiproc verbose kw
                  = Inr (Groups (ga, gb) (ua, ub)) \<longrightarrow> gb = ga \<and> ub = ua)
    \<and> assign_rdm1s lo mol s (fst mo_coeff, b') (fst mo_occ, ob') ref pop part multiproc verbose kw
        = assign_rdm1s lo mol s mo_coeff mo_occ ref pop part multiproc verbose kw"
proof -
  have cs: "closed_shell ref mol"
    using assms by (simp add: closed_shell_def)
  note sl = spin_loop_closed_shell [OF cs]
  have w: "wb = wa"
    if "assign_rdm1s lo mol s mo_coeff mo_occ ref pop part multiproc verbose kw
          = Inr (Weights (wa, wb))" for wa wb
    using that sl(2) [of lo s mo_coeff mo_occ pop multiproc]
    by (auto simp: assign_rdm1s_def split: sum.splits if_splits option.splits prod.splits)
  have g: "gb = ga \<and> ub = ua"
    if "assign_rdm1s lo mol s mo_coeff mo_occ ref pop part multiproc verbose kw
          = Inr (Groups (ga, gb) (ua, ub))" for ga gb ua ub
  proof -
    from groups_returned [OF that] obtain st :: pop_state and ca cb where
      bc: "bond_centres mol ref (weights st) (domain st) kw = Inr (ca, cb)"
      and r: "(ga, gb) = (rep_idx ca, rep_idx cb)" "(ua, ub) = (unique_rows ca, unique_rows cb)"
      by blast
    from bond_centres_closed_shell [OF cs bc] r show ?thesis by simp
  qed
  have "spin_loop lo mol s (fst mo_coeff, b') (fst mo_occ, ob') ref pop multiproc
      = spin_loop lo mol s mo_coeff mo_occ ref pop multiproc"
    using sl(1) [of lo s "fst mo_coeff" b' "fst mo_occ" ob' pop multiproc "snd mo_coeff" "snd mo_occ"]
    by simp
  then have n: "assign_rdm1s lo mol s (fst mo_coeff, b') (fst mo_occ, ob') ref pop part multiproc
        verbose kw
      = assign_rdm1s lo mol s mo_coeff mo_occ ref pop part multiproc verbose kw"
    by (simp add: assign_rdm1s_def)
  have p1: "\<forall>st. loc_orbs lo mol mo_coeff s ref variant = (None, st) \<longrightarrow>
            (\<forall>j \<in> set (alpha mol). mo_b st ! j = mo_a st ! j)
            \<and> runs st = (if known_variant variant then 1 else 0)"
    using loc_orbs_closed_shell [OF cs] by blast
  have p2: "runs (snd (loc_orbs lo mol mo_coeff s ref variant)) \<le> 1"
    by (rule loc_orbs_closed_shell_runs [OF cs])
  have p3: "\<forall>st. spin_loop lo mol s mo_coeff mo_occ ref pop multiproc = Inr st \<longrightarrow>
            snd (weights st) = fst (weights st)
            \<and> evaluated st = map (Pair 0) [0..<length (alpha mol)]"
    using sl(2) by blast
  have p4: "\<forall>w n ca cb. bond_centres mol ref w n kw = Inr (ca, cb) \<longrightarrow> cb = ca"
    using bond_centres_closed_shell [OF cs] by blast
  have p5: "\<forall>wa wb. assign_rdm1s lo mol s mo_coeff mo_occ ref pop part multiproc verbose kw
                  = Inr (Weights (wa, wb)) \<longrightarrow> wb = wa"
    using w by blast
  have p6: "\<forall>ga gb ua ub. assign_rdm1s lo mol s mo_coeff mo_occ ref pop part multiproc verbose kw
                  = Inr (Groups (ga, gb) (ua, ub)) \<longrightarrow> gb = ga \<and> ub = ua"
    using g by blast
  show ?thesis
    using p1 p2 p3 p4 p5 p6 n by (intro conjI)
qed

theorem closed_shell_beta_is_alpha_witness:
  "spin (example_mol [0, 1] [0, 1] [0, 1, 1]) = 0
   \<and> loc_orbs example_lo (example_mol [0, 1] [0, 1] [0, 1, 1])
         (unit3, [[2, 0, 0], [0, 2, 0], [0, 0, 2]]) unit3 ''restricted'' ''fb''
       = (None, \<lparr>mo_a = [[0, 1, 0], [1, 0, 0], [0, 0, 1]],
                  mo_b = [[0, 1, 0], [1, 0, 0], [0, 0, 2]], runs = 1\<rparr>)
   \<and> 1 \<in> set (alpha (example_mol [0, 1] [0, 1] [0, 1, 1]))
   \<and> mo_b \<lparr>mo_a = [[0, 1, 0], [1, 0, 0], [0, 0, 1]],
             mo_b = [[0, 1, 0], [1, 0, 0], [0, 0, 2]], runs = 1\<rparr> ! 1
       = mo_a \<lparr>mo_a = [[0, 1, 0], [1, 0, 0], [0, 0, 1]],
               mo_b = [[0, 1, 0], [1, 0, 0], [0, 0, 2]], runs = 1\<rparr> ! 1
   \<and> assign_rdm1s example_lo (example_mol [0, 1] [0, 1] [0, 1, 1]) unit3
         (unit3, [[2, 0, 0], [0, 2, 0], [0, 0, 2]]) ([1, 1, 0], [0, 0, 0])
         ''restricted'' ''mulliken'' ''bonds'' False 0 (Some 0.9)
       = Inr (Groups ([[0], [1]], [[0], [1]]) ([(0, 0), (1, 1)], [(0, 0), (1, 1)]))
   \<and> assign_rdm1s example_lo (example_mol [0, 1] [0, 1] [0, 1, 1]) unit3
         (unit3, unit3) ([1, 1, 0], [1, 1, 0])
         ''restricted'' ''mulliken'' ''bonds'' False 0 (Some 0.9)
       = assign_rdm1s example_lo (example_mol [0, 1] [0, 1] [0, 1, 1]) unit3
         (unit3, [[2, 0, 0], [0, 2, 0], [0, 0, 2]]) ([1, 1, 0], [0, 0, 0])
         ''restricted'' ''mulliken'' ''bonds'' False 0 (Some 0.9)"
proof -
  have h: "spin (example_mol [0, 1] [0, 1] [0, 1, 1]) = 0"
    by (simp add: example_mol_def)
  have l: "loc_orbs example_lo (example_mol [0, 1] [0, 1] [0, 1, 1])
         (unit3, [[2, 0, 0], [0, 2, 0], [0, 0, 2]]) unit3 ''restricted'' ''fb''
       = (None, \<lparr>mo_a = [[0, 1, 0], [1, 0, 0], [0, 0, 1]],
                  mo_b = [[0, 1, 0], [1, 0, 0], [0, 0, 2]], runs = 1\<rparr>)"
    by (simp add: loc_orbs_def localize_def take_cols_def put_cols_def example_lo_def
        example_mol_def unit3_def closed_shell_def)
  have a: "assign_rdm1s example_lo (example_mol [0, 1] [0, 1] [0, 1, 1]) unit3
         (unit3, [[2, 0, 0], [0, 2, 0], [0, 0, 2]]) ([1, 1, 0], [0, 0, 0])
         ''restricted'' ''mulliken'' ''bonds'' False 0 (Some 0.9)
       = Inr (Groups ([[0], [1]], [[0], [1]]) ([(0, 0), (1, 1)], [(0, 0), (1, 1)]))"
    by (simp add: model_defs unit3_def)
  note t = closed_shell_beta_is_alpha [OF refl h, where lo = example_lo
      and mo_coeff = "(unit3, [[2, 0, 0], [0, 2, 0], [0, 0, 2]])" and s = unit3
      and variant = "''fb''" and mo_occ = "([1, 1, 0], [0, 0, 0])" and pop = "''mulliken''"
      and part = "''bonds''" and multiproc = False and verbose = 0 and kw = "Some 0.9"
      and b' = unit3 and ob' = "[1, 1, 0]"]
  have m: "1 \<in> set (alpha (example_mol [0, 1] [0, 1] [0, 1, 1]))"
    by (simp add: example_mol_def)
  note t1 = t [THEN conjunct1, THEN spec, THEN mp, OF l, THEN conjunct1, THEN bspec, OF m]
  note t6 = t [THEN conjunct2, THEN conjunct2, THEN conjunct2, THEN conjunct2, THEN conjunct2,
      THEN conjunct2, unfolded fst_conv]
  show ?thesis
    using h l m t1 a t6 by (intro conjI)
qed

end
